theory Spec2Isabelle
  imports Main "HOL-Library.AList" "HOL-Library.Char_ord" "HOL-Library.List_Lexorder"
begin

section \<open>Protocol data used by the loader runtime\<close>

text \<open>
  The enumerations and message shapes that \<^verbatim>\<open>runtime.ts\<close> imports from the
  runtime definitions. Only the fields that the runtime reads or writes are kept.
\<close>

datatype ConnectionState = Disconnected | Connecting | Connected

datatype MessageType = Operation | Attach | Save | BlobUploaded | RemoteHelp

datatype FileMode = File | Directory

datatype ITreeEntry =
  ITreeEntry (mode: FileMode) (path: string) (entry_type: string) (entry_value: ITreeValue)
and ITreeValue =
  IBlob (contents: string) (encoding: string)
| ITree (entries: "ITreeEntry list")

record IAttachMessage =
  attach_id :: string
  attach_snapshot :: ITreeValue
  attach_type :: string

record IObjectAttributes =
  sequenceNumber :: int
  attr_type :: string

record ISnapshotTree =
  blobs :: "(string \<times> string) list"

text \<open>
  The contents of a sequenced message are \<open>any\<close> in the source, and each operation casts
  them to the shape it expects: an attach message or an envelope. The record takes the
  shape as a parameter. Sequence numbers are the integer-valued numbers that the ordering
  service assigns.
\<close>

type_synonym IObjectMessage = string

record IEnvelope =
  envelope_address :: string
  envelope_contents :: IObjectMessage

record IGenericBlob =
  blob_content :: string
  blob_sha :: string
  blob_url :: string

type_synonym IPlatform = string

record 'c ISequencedDocumentMessage =
  msg_contents :: 'c
  msg_minimumSequenceNumber :: int
  msg_sequenceNumber :: int
  msg_referenceSequenceNumber :: int
  msg_origin :: "string option"

record ISequencedObjectMessage =
  obj_sequenceNumber :: int
  obj_referenceSequenceNumber :: int

text \<open>
  A channel is an object owned by its chaincode module; the runtime only holds a reference
  to it. \<open>IChannel\<close> is what the object answers when the runtime asks (\<open>id\<close>, \<open>type\<close>,
  \<open>isLocal()\<close>, \<open>snapshot()\<close>, \<open>dirty\<close>), and a \<open>heap\<close> gives these answers for every
  reference at the moment of a call.
\<close>

record IChannel =
  channel_id :: string
  channel_type :: string
  isLocal :: bool
  channel_snapshot :: "ITreeEntry list"
  dirty :: bool

type_synonym ref = nat

type_synonym heap = "ref \<Rightarrow> IChannel"

datatype error =
  Error string
| AssertionError
| TypeError
| ProtocolInvariantViolation
| StorageError

section \<open>The delta connection of a channel\<close>

text \<open>
  Modelled from the spec: the class \<open>ChannelDeltaConnection\<close> (\<^verbatim>\<open>channelDeltaConnection.ts\<close>)
  is imported by \<^verbatim>\<open>runtime.ts\<close> but is not among the sources. The specification fixes
  this much of it: \<open>setBaseMapping\<close> establishes the mapping and fails when it is called a
  second time; \<open>updateMinimumSequenceNumber\<close> advances the low-water mark and has no effect
  while the mapping is not established; \<open>setConnectionState\<close> records the connectivity of
  the channel.
\<close>

record ChannelDeltaConnection =
  conn_objectId :: string
  conn_state :: ConnectionState
  baseMapping :: "(int \<times> int) option"
  minimumSequenceNumber :: int

text \<open>
  Modelled from the spec: the constructor of \<open>ChannelDeltaConnection\<close>, missing with the
  class. A new connection knows its channel id and the connection state, and has no base
  mapping.
\<close>

definition newChannelDeltaConnection :: "string \<Rightarrow> ConnectionState \<Rightarrow> ChannelDeltaConnection" where
  "newChannelDeltaConnection i st =
     \<lparr>conn_objectId = i, conn_state = st, baseMapping = None, minimumSequenceNumber = 0\<rparr>"

text \<open>
  Modelled from the spec: \<open>baseMappingIsSet\<close>, missing with the class; whether
  \<open>setBaseMapping\<close> has been called.
\<close>

definition baseMappingIsSet :: "ChannelDeltaConnection \<Rightarrow> bool" where
  "baseMappingIsSet c = (baseMapping c \<noteq> None)"

text \<open>
  Modelled from the spec: \<open>setBaseMapping(localSequenceNumber, minimumSequenceNumber)\<close>,
  missing with the class. It establishes the mapping, starts the low-water mark at the
  given minimum sequence number, and fails when the mapping is already set.
\<close>

definition setBaseMapping ::
  "int \<Rightarrow> int \<Rightarrow> ChannelDeltaConnection \<Rightarrow> error + ChannelDeltaConnection" where
  "setBaseMapping localSequenceNumber msn c =
     (if baseMappingIsSet c then Inl ProtocolInvariantViolation
      else Inr (c\<lparr>baseMapping := Some (localSequenceNumber, msn), minimumSequenceNumber := msn\<rparr>))"

text \<open>
  Modelled from the spec: the connection's \<open>updateMinSequenceNumber\<close>, missing with the
  class. It advances the low-water mark, and is without effect before the mapping is set or
  for a value that is not above the current mark.
\<close>

definition conn_updateMinSequenceNumber ::
  "int \<Rightarrow> ChannelDeltaConnection \<Rightarrow> ChannelDeltaConnection" where
  "conn_updateMinSequenceNumber msn c =
     (if baseMappingIsSet c
      then c\<lparr>minimumSequenceNumber := max (minimumSequenceNumber c) msn\<rparr>
      else c)"

text \<open>
  Modelled from the spec: \<open>setConnectionState\<close>, missing with the class; the connection
  takes over the connectivity it is told.
\<close>

definition setConnectionState ::
  "ConnectionState \<Rightarrow> ChannelDeltaConnection \<Rightarrow> ChannelDeltaConnection" where
  "setConnectionState v c = c\<lparr>conn_state := v\<rparr>"

text \<open>
  Modelled from the spec: \<open>translateToObjectMessage\<close>, missing with the class. The
  sequence number and the reference sequence number are rewritten into the channel's
  space by subtracting the mapping point, floored at zero.
\<close>

definition translateToObjectMessage ::
  "ChannelDeltaConnection \<Rightarrow> 'c ISequencedDocumentMessage \<Rightarrow> ISequencedObjectMessage" where
  "translateToObjectMessage c m =
     (let base = (case baseMapping c of None \<Rightarrow> 0 | Some (l, d) \<Rightarrow> d) in
      \<lparr>obj_sequenceNumber = max 0 (msg_sequenceNumber m - base),
       obj_referenceSequenceNumber = max 0 (msg_referenceSequenceNumber m - base)\<rparr>)"

section \<open>The runtime state\<close>

datatype IObjectStorageService =
  ChannelStorageService "ISnapshotTree option"
| LocalChannelStorageService ITreeValue

record IChannelState =
  object :: ref
  storage :: "IObjectStorageService option"
  connection :: "ChannelDeltaConnection option"

record IObjectServices =
  deltaConnection :: ChannelDeltaConnection
  objectStorage :: IObjectStorageService

datatype content =
  AttachContent IAttachMessage
| TagContent string
| BlobContent IGenericBlob
| OtherContent string

text \<open>
  What the runtime does to its collaborators, in the order it does it: a call of
  \<open>submitFn\<close>, an event emitted to the listeners, a call of \<open>snapshotFn\<close>, a call of
  the leader elector's \<open>proposeLeadership\<close>, a call of the blob manager's
  \<open>createBlob\<close>, a call of \<open>closeFn\<close>, a listener added for an event.
\<close>

datatype effect =
  Submitted MessageType content
| Emitted string string
| SnapshotRequested string
| LeadershipProposed string
| BlobCreated IGenericBlob
| CloseRequested
| ListenerAdded string

text \<open>
  \<open>Emitted\<close> records the call of \<open>emit\<close>; what the listeners do when they are
  called is not part of the state.
\<close>

text \<open>
  The three \<open>Map\<close>s of the class are association lists in insertion order:
  \<open>Map.set\<close> is \<open>AList.update\<close> (an existing key keeps its place, a new key goes
  last), \<open>Map.get\<close> is \<open>map_of\<close>, \<open>Map.delete\<close> is \<open>AList.delete\<close>. A
  \<open>Deferred\<close> is \<open>None\<close> until it is resolved and keeps its first value afterwards.
\<close>

record Runtime =
  documentId :: string
  channels :: "(string \<times> IChannelState) list"
  channelsDeferred :: "(string \<times> ref option) list"
  closed :: bool
  pendingAttach :: "(string \<times> IAttachMessage) list"
  connectionState :: ConnectionState
  clientId :: string
  leaderElector :: "string option"
  platform :: "IPlatform option"
  tasks :: "string list"
  version :: "string option"
  effects :: "effect list"

datatype 'a outcome =
  Throws error Runtime
| Returns 'a Runtime

record IChaincodeModule =
  create :: "Runtime \<Rightarrow> string \<Rightarrow> ref"
  load :: "Runtime \<Rightarrow> string \<Rightarrow> int \<Rightarrow> ISequencedObjectMessage list
            \<Rightarrow> IObjectServices \<Rightarrow> string \<Rightarrow> ref"

type_synonym IChaincode = "string \<Rightarrow> IChaincodeModule option"

definition has :: "('k \<times> 'v) list \<Rightarrow> 'k \<Rightarrow> bool" where
  "has m k = (map_of m k \<noteq> None)"

definition resolve :: "ref \<Rightarrow> ref option \<Rightarrow> ref option" where
  "resolve v d = (case d of None \<Rightarrow> Some v | Some w \<Rightarrow> Some w)"

definition resolveDeferred ::
  "string \<Rightarrow> ref \<Rightarrow> (string \<times> ref option) list \<Rightarrow> (string \<times> ref option) list" where
  "resolveDeferred i ch ds =
     (case map_of ds i of
        Some d \<Rightarrow> AList.update i (resolve ch d) ds
      | None \<Rightarrow> AList.update i (Some ch) ds)"

section \<open>The operations of \<open>Runtime\<close>\<close>

definition closedError :: error where
  "closedError = Error ''Runtime is closed''"

definition verifyNotClosed :: "Runtime \<Rightarrow> error option" where
  "verifyNotClosed s = (if closed s then Some closedError else None)"

definition submit :: "Runtime \<Rightarrow> MessageType \<Rightarrow> content \<Rightarrow> unit outcome" where
  "submit s t c =
     (case verifyNotClosed s of
        Some e \<Rightarrow> Throws e s
      | None \<Rightarrow> Returns () (s\<lparr>effects := effects s @ [Submitted t c]\<rparr>))"

definition submitMessage :: "Runtime \<Rightarrow> MessageType \<Rightarrow> content \<Rightarrow> unit outcome" where
  "submitMessage s t c = submit s t c"

definition getChannel :: "Runtime \<Rightarrow> string \<Rightarrow> (ref option) outcome" where
  "getChannel s i =
     (case verifyNotClosed s of
        Some e \<Rightarrow> Throws e s
      | None \<Rightarrow>
          (case map_of (channelsDeferred s) i of
             Some d \<Rightarrow> Returns d s
           | None \<Rightarrow>
               Returns None (s\<lparr>channelsDeferred := AList.update i None (channelsDeferred s)\<rparr>)))"

definition createChannel :: "IChaincode \<Rightarrow> Runtime \<Rightarrow> string \<Rightarrow> string \<Rightarrow> ref outcome" where
  "createChannel chaincode s i ty =
     (case verifyNotClosed s of
        Some e \<Rightarrow> Throws e s
      | None \<Rightarrow>
          (case chaincode ty of
             None \<Rightarrow> Throws TypeError s
           | Some extension \<Rightarrow>
               (let channel = create extension s i in
                Returns channel
                  (s\<lparr>channels :=
                       AList.update i \<lparr>object = channel, storage = None, connection = None\<rparr>
                         (channels s),
                     channelsDeferred := resolveDeferred i channel (channelsDeferred s)\<rparr>))))"

definition getObjectServices :: "Runtime \<Rightarrow> string \<Rightarrow> ISnapshotTree option \<Rightarrow> IObjectServices" where
  "getObjectServices s i tree =
     \<lparr>deltaConnection = newChannelDeltaConnection i (connectionState s),
      objectStorage = ChannelStorageService tree\<rparr>"

definition attachChannel :: "heap \<Rightarrow> Runtime \<Rightarrow> ref \<Rightarrow> IObjectServices outcome" where
  "attachChannel h s channel =
     (case verifyNotClosed s of
        Some e \<Rightarrow> Throws e s
      | None \<Rightarrow>
          (let message = \<lparr>attach_id = channel_id (h channel),
                          attach_snapshot = ITree (channel_snapshot (h channel)),
                          attach_type = channel_type (h channel)\<rparr>;
               s1 = s\<lparr>pendingAttach :=
                        AList.update (channel_id (h channel)) message (pendingAttach s)\<rparr>
           in case submit s1 Attach (AttachContent message) of
                Throws e s2 \<Rightarrow> Throws e s2
              | Returns u s2 \<Rightarrow>
                  (let services = getObjectServices s2 (channel_id (h channel)) None in
                   case map_of (channels s2) (channel_id (h channel)) of
                     None \<Rightarrow> Throws TypeError s2
                   | Some entry \<Rightarrow>
                       if object entry \<noteq> channel then Throws AssertionError s2
                       else Returns services
                         (s2\<lparr>channels :=
                               AList.update (channel_id (h channel))
                                 (entry\<lparr>connection := Some (deltaConnection services),
                                        storage := Some (objectStorage services)\<rparr>)
                                 (channels s2)\<rparr>))))"

definition notifyChannel :: "ConnectionState \<Rightarrow> IChannelState \<Rightarrow> IChannelState" where
  "notifyChannel v st =
     (case connection st of
        None \<Rightarrow> st
      | Some c \<Rightarrow> st\<lparr>connection := Some (setConnectionState v c)\<rparr>)"

fun resubmit :: "Runtime \<Rightarrow> (string \<times> IAttachMessage) list \<Rightarrow> unit outcome" where
  "resubmit s [] = Returns () s"
| "resubmit s ((k, message) # rest) =
     (case submit s Attach (AttachContent message) of
        Throws e s1 \<Rightarrow> Throws e s1
      | Returns u s1 \<Rightarrow> resubmit s1 rest)"

definition changeConnectionState :: "Runtime \<Rightarrow> ConnectionState \<Rightarrow> string \<Rightarrow> unit outcome" where
  "changeConnectionState s v cid =
     (case verifyNotClosed s of
        Some e \<Rightarrow> Throws e s
      | None \<Rightarrow>
          if v = connectionState s then Returns () s
          else
            (let s1 = s\<lparr>connectionState := v, clientId := cid\<rparr> in
             case (if v = Connected
                   then (case resubmit s1 (pendingAttach s1) of
                           Throws e s2 \<Rightarrow> Throws e s2
                         | Returns u s2 \<Rightarrow>
                             Returns () (s2\<lparr>effects := effects s2 @ [Emitted ''connected'' cid]\<rparr>))
                   else Returns () s1) of
               Throws e s3 \<Rightarrow> Throws e s3
             | Returns u s3 \<Rightarrow>
                 Returns () (s3\<lparr>channels := map (\<lambda>(k, st). (k, notifyChannel v st)) (channels s3)\<rparr>)))"

text \<open>
  \<open>JSON.stringify\<close> is a function of the host. The operations that call it take it as
  the parameter \<open>stringify\<close>. The definitions below give its text where this theory can
  write it down: a string is quoted, with the quote, the backslash and the control
  characters escaped; a number that is a safe integer (of magnitude at most
  9007199254740991) is written with its decimal digits. For other numbers, which the
  host rounds or writes with an exponent, no text is given.
\<close>

fun digits :: "nat \<Rightarrow> string" where
  "digits n =
     (if n < 10 then [''0123456789'' ! n]
      else digits (n div 10) @ [''0123456789'' ! (n mod 10)])"

declare digits.simps [simp del]

definition JSON_stringify_number :: "int \<Rightarrow> string option" where
  "JSON_stringify_number n =
     (if \<bar>n\<bar> \<le> 9007199254740991
      then Some (if n < 0 then CHR ''-'' # digits (nat (- n)) else digits (nat n))
      else None)"

definition escape_char :: "char \<Rightarrow> string" where
  "escape_char c =
     (if c = CHR 0x22 then [CHR 0x5C, CHR 0x22]
      else if c = CHR 0x5C then [CHR 0x5C, CHR 0x5C]
      else if c = CHR 0x08 then [CHR 0x5C, CHR ''b'']
      else if c = CHR 0x0C then [CHR 0x5C, CHR ''f'']
      else if c = CHR 0x0A then [CHR 0x5C, CHR ''n'']
      else if c = CHR 0x0D then [CHR 0x5C, CHR ''r'']
      else if c = CHR 0x09 then [CHR 0x5C, CHR ''t'']
      else if (of_char c :: nat) < 32
        then [CHR 0x5C, CHR ''u'', CHR ''0'', CHR ''0'',
              ''0123456789abcdef'' ! ((of_char c :: nat) div 16),
              ''0123456789abcdef'' ! ((of_char c :: nat) mod 16)]
      else [c])"

definition JSON_stringify_string :: "string \<Rightarrow> string" where
  "JSON_stringify_string s = CHR 0x22 # concat (map escape_char s) @ [CHR 0x22]"

definition JSON_stringify_attributes :: "IObjectAttributes \<Rightarrow> string option" where
  "JSON_stringify_attributes a =
     (case JSON_stringify_number (sequenceNumber a) of
        None \<Rightarrow> None
      | Some number \<Rightarrow>
          Some (''{'' @ JSON_stringify_string ''sequenceNumber'' @ '':'' @ number @ '',''
                @ JSON_stringify_string ''type'' @ '':'' @ JSON_stringify_string (attr_type a)
                @ ''}''))"

text \<open>
  The body of the loop of \<open>snapshotInternal\<close> for one channel: nothing for a channel that
  is local or has no base mapping; otherwise the channel's own snapshot with the
  \<open>.attributes\<close> blob pushed onto its entries, stored as a directory under the id of the
  channel in the map.
\<close>

definition snapshotChannel ::
  "(IObjectAttributes \<Rightarrow> string) \<Rightarrow> heap \<Rightarrow> string \<Rightarrow> IChannelState
     \<Rightarrow> error + ITreeEntry option" where
  "snapshotChannel stringify h objectId obj =
     (if \<not> isLocal (h (object obj)) then
        (case connection obj of
           None \<Rightarrow> Inl TypeError
         | Some c \<Rightarrow>
             if baseMappingIsSet c
             then
               (let objectAttributes = \<lparr>sequenceNumber = minimumSequenceNumber c,
                                         attr_type = channel_type (h (object obj))\<rparr>
                in Inr (Some (ITreeEntry Directory objectId ''Tree''
                     (ITree (channel_snapshot (h (object obj))
                             @ [ITreeEntry File ''.attributes'' ''Blob''
                                  (IBlob (stringify objectAttributes) ''utf-8'')])))))
             else Inr None)
      else Inr None)"

fun snapshotEntries ::
  "(IObjectAttributes \<Rightarrow> string) \<Rightarrow> heap \<Rightarrow> (string \<times> IChannelState) list
     \<Rightarrow> error + ITreeEntry list" where
  "snapshotEntries stringify h [] = Inr []"
| "snapshotEntries stringify h ((objectId, obj) # rest) =
     (case snapshotChannel stringify h objectId obj of
        Inl e \<Rightarrow> Inl e
      | Inr r \<Rightarrow>
          (case snapshotEntries stringify h rest of
             Inl e \<Rightarrow> Inl e
           | Inr es \<Rightarrow> Inr (case r of None \<Rightarrow> es | Some entry \<Rightarrow> entry # es)))"

definition snapshotInternal ::
  "(IObjectAttributes \<Rightarrow> string) \<Rightarrow> heap \<Rightarrow> Runtime \<Rightarrow> (ITreeEntry list) outcome" where
  "snapshotInternal stringify h s =
     (case snapshotEntries stringify h (channels s) of
        Inl e \<Rightarrow> Throws e s
      | Inr es \<Rightarrow> Returns es s)"

definition stop ::
  "(IObjectAttributes \<Rightarrow> string) \<Rightarrow> heap \<Rightarrow> Runtime \<Rightarrow> (ITreeEntry list) outcome" where
  "stop stringify h s =
     (case verifyNotClosed s of
        Some e \<Rightarrow> Throws e s
      | None \<Rightarrow> snapshotInternal stringify h (s\<lparr>closed := True\<rparr>))"

text \<open>
  \<open>updateMinSequenceNumber\<close> of the runtime. What the delta connection does with the
  call is the parameter \<open>update\<close>, so that the guard of the runtime is the only test in
  the loop.
\<close>

definition updateChannel ::
  "(int \<Rightarrow> ChannelDeltaConnection \<Rightarrow> ChannelDeltaConnection) \<Rightarrow> heap \<Rightarrow> int
     \<Rightarrow> IChannelState \<Rightarrow> error + IChannelState" where
  "updateChannel update h msn obj =
     (if \<not> isLocal (h (object obj)) then
        (case connection obj of
           None \<Rightarrow> Inl TypeError
         | Some c \<Rightarrow>
             if baseMappingIsSet c
             then Inr (obj\<lparr>connection := Some (update msn c)\<rparr>)
             else Inr obj)
      else Inr obj)"

fun updateChannels ::
  "(int \<Rightarrow> ChannelDeltaConnection \<Rightarrow> ChannelDeltaConnection) \<Rightarrow> heap \<Rightarrow> int
     \<Rightarrow> (string \<times> IChannelState) list
     \<Rightarrow> error option \<times> (string \<times> IChannelState) list" where
  "updateChannels update h msn [] = (None, [])"
| "updateChannels update h msn ((k, obj) # rest) =
     (case updateChannel update h msn obj of
        Inl e \<Rightarrow> (Some e, (k, obj) # rest)
      | Inr obj' \<Rightarrow>
          (case updateChannels update h msn rest of (r, rest') \<Rightarrow> (r, (k, obj') # rest')))"

definition updateMinSequenceNumber ::
  "(int \<Rightarrow> ChannelDeltaConnection \<Rightarrow> ChannelDeltaConnection) \<Rightarrow> heap \<Rightarrow> Runtime \<Rightarrow> int
     \<Rightarrow> unit outcome" where
  "updateMinSequenceNumber update h s msn =
     (case updateChannels update h msn (channels s) of
        (Some e, cs) \<Rightarrow> Throws e (s\<lparr>channels := cs\<rparr>)
      | (None, cs) \<Rightarrow> Returns () (s\<lparr>channels := cs\<rparr>))"

definition processAttach ::
  "heap \<Rightarrow> Runtime \<Rightarrow> IAttachMessage ISequencedDocumentMessage \<Rightarrow> bool
     \<Rightarrow> IChannelState option \<Rightarrow> ref outcome" where
  "processAttach h s message local context =
     (case verifyNotClosed s of
        Some e \<Rightarrow> Throws e s
      | None \<Rightarrow>
          (let attachMessage = msg_contents message in
           if local then
             (if \<not> has (pendingAttach s) (attach_id attachMessage) then Throws AssertionError s
              else
                (let s1 = s\<lparr>pendingAttach :=
                             AList.delete (attach_id attachMessage) (pendingAttach s)\<rparr> in
                 case map_of (channels s1) (attach_id attachMessage) of
                   None \<Rightarrow> Throws TypeError s1
                 | Some st \<Rightarrow>
                     (case connection st of
                        None \<Rightarrow> Throws TypeError s1
                      | Some c \<Rightarrow>
                          (case setBaseMapping 0 (msg_minimumSequenceNumber message) c of
                             Inl e \<Rightarrow> Throws e s1
                           | Inr c' \<Rightarrow>
                               Returns (object st)
                                 (s1\<lparr>channels :=
                                       AList.update (attach_id attachMessage)
                                         (st\<lparr>connection := Some c'\<rparr>) (channels s1)\<rparr>)))))
           else
             (case context of
                None \<Rightarrow> Throws TypeError s
              | Some channelState \<Rightarrow>
                  (let i = channel_id (h (object channelState));
                       s1 = s\<lparr>channels := AList.update i channelState (channels s),
                              channelsDeferred :=
                                resolveDeferred i (object channelState) (channelsDeferred s)\<rparr>
                   in case map_of (channels s1) (attach_id attachMessage) of
                        None \<Rightarrow> Throws TypeError s1
                      | Some st \<Rightarrow> Returns (object st) s1))))"

definition hasUnackedOps :: "heap \<Rightarrow> Runtime \<Rightarrow> bool outcome" where
  "hasUnackedOps h s =
     (case verifyNotClosed s of
        Some e \<Rightarrow> Throws e s
      | None \<Rightarrow> Returns (list_ex (\<lambda>(k, st). dirty (h (object st))) (channels s)) s)"

definition snapshot :: "Runtime \<Rightarrow> string \<Rightarrow> unit outcome" where
  "snapshot s message =
     (case verifyNotClosed s of
        Some e \<Rightarrow> Throws e s
      | None \<Rightarrow> Returns () (s\<lparr>effects := effects s @ [SnapshotRequested message]\<rparr>))"

definition save :: "Runtime \<Rightarrow> string \<Rightarrow> unit outcome" where
  "save s tag =
     (case verifyNotClosed s of
        Some e \<Rightarrow> Throws e s
      | None \<Rightarrow> submit s Save (TagContent tag))"

text \<open>
  The operations below reach collaborators whose code is not part of the runtime: the
  channel objects, the chaincode, the blob manager, the storage service and the delta
  connection's message handling. What a collaborator answers is a parameter of the
  operation; a call that changes the collaborator is recorded as an effect.
\<close>

fun firstRejected :: "(ref \<Rightarrow> error option) \<Rightarrow> (string \<times> IChannelState) list \<Rightarrow> error option" where
  "firstRejected readyOf [] = None"
| "firstRejected readyOf ((k, st) # rest) =
     (case readyOf (object st) of
        Some e \<Rightarrow> Some e
      | None \<Rightarrow> firstRejected readyOf rest)"

definition ready :: "(ref \<Rightarrow> error option) \<Rightarrow> Runtime \<Rightarrow> unit outcome" where
  "ready readyOf s =
     (case verifyNotClosed s of
        Some e \<Rightarrow> Throws e s
      | None \<Rightarrow>
          (case firstRejected readyOf (channels s) of
             Some e \<Rightarrow> Throws e s
           | None \<Rightarrow> Returns () s))"

definition start ::
  "(Runtime \<Rightarrow> IPlatform \<Rightarrow> error + IPlatform) \<Rightarrow> Runtime \<Rightarrow> IPlatform \<Rightarrow> unit outcome" where
  "start chaincodeRun s p =
     (case verifyNotClosed s of
        Some e \<Rightarrow> Throws e s
      | None \<Rightarrow>
          (case chaincodeRun s p of
             Inl e \<Rightarrow> Throws e s
           | Inr p' \<Rightarrow> Returns () (s\<lparr>platform := Some p'\<rparr>)))"

definition prepare ::
  "(ChannelDeltaConnection \<Rightarrow> IEnvelope ISequencedDocumentMessage \<Rightarrow> bool \<Rightarrow> 'p)
     \<Rightarrow> Runtime \<Rightarrow> IEnvelope ISequencedDocumentMessage \<Rightarrow> bool \<Rightarrow> 'p outcome" where
  "prepare connectionPrepare s message local =
     (case verifyNotClosed s of
        Some e \<Rightarrow> Throws e s
      | None \<Rightarrow>
          (let envelope = msg_contents message in
           case map_of (channels s) (envelope_address envelope) of
             None \<Rightarrow> Throws AssertionError s
           | Some objectDetails \<Rightarrow>
               (case connection objectDetails of
                  None \<Rightarrow> Throws TypeError s
                | Some c \<Rightarrow> Returns (connectionPrepare c message local) s)))"

definition process ::
  "(ChannelDeltaConnection \<Rightarrow> IEnvelope ISequencedDocumentMessage \<Rightarrow> bool \<Rightarrow> 'x
      \<Rightarrow> error + ChannelDeltaConnection)
     \<Rightarrow> Runtime \<Rightarrow> IEnvelope ISequencedDocumentMessage \<Rightarrow> bool \<Rightarrow> 'x \<Rightarrow> ref outcome" where
  "process connectionProcess s message local context =
     (case verifyNotClosed s of
        Some e \<Rightarrow> Throws e s
      | None \<Rightarrow>
          (let envelope = msg_contents message in
           case map_of (channels s) (envelope_address envelope) of
             None \<Rightarrow> Throws AssertionError s
           | Some objectDetails \<Rightarrow>
               (case connection objectDetails of
                  None \<Rightarrow> Throws TypeError s
                | Some c \<Rightarrow>
                    (case connectionProcess c message local context of
                       Inl e \<Rightarrow> Throws e s
                     | Inr c' \<Rightarrow>
                         Returns (object objectDetails)
                           (s\<lparr>channels :=
                                 AList.update (envelope_address envelope)
                                   (objectDetails\<lparr>connection := Some c'\<rparr>) (channels s)\<rparr>)))))"

definition uploadBlob ::
  "(string \<Rightarrow> string) \<Rightarrow> (string \<Rightarrow> string) \<Rightarrow> (IGenericBlob \<Rightarrow> error + IGenericBlob)
     \<Rightarrow> Runtime \<Rightarrow> IGenericBlob \<Rightarrow> IGenericBlob outcome" where
  "uploadBlob gitHashFile getRawUrl createBlob s file0 =
     (case verifyNotClosed s of
        Some e \<Rightarrow> Throws e s
      | None \<Rightarrow>
          (let sha = gitHashFile (blob_content file0);
               file = file0\<lparr>blob_sha := sha, blob_url := getRawUrl sha\<rparr>;
               s1 = s\<lparr>effects := effects s @ [BlobCreated file]\<rparr>
           in case createBlob file of
                Inl e \<Rightarrow> Throws e s1
              | Inr created1 \<Rightarrow>
                  (let s2 = s1\<lparr>effects := effects s1 @ [BlobCreated file]\<rparr> in
                   case createBlob file of
                     Inl e \<Rightarrow> Throws e s2
                   | Inr created \<Rightarrow>
                       (case submit s2 BlobUploaded (BlobContent created) of
                          Throws e s3 \<Rightarrow> Throws e s3
                        | Returns u s3 \<Rightarrow> Returns file s3))))"

definition getBlob :: "(string \<Rightarrow> 'b) \<Rightarrow> Runtime \<Rightarrow> string \<Rightarrow> 'b outcome" where
  "getBlob blobManagerGetBlob s sha =
     (case verifyNotClosed s of
        Some e \<Rightarrow> Throws e s
      | None \<Rightarrow> Returns (blobManagerGetBlob sha) s)"

text \<open>
  \<open>transform\<close> rewrites the contents of the envelope in place; here it returns the
  rewritten message. The channel's own \<open>transform\<close>, the connection's
  \<open>transformDocumentSequenceNumber\<close> and the minimum sequence number of the delta manager
  are parameters.
\<close>

definition transform ::
  "(ref \<Rightarrow> IObjectMessage \<Rightarrow> int \<Rightarrow> IObjectMessage) \<Rightarrow> (ChannelDeltaConnection \<Rightarrow> int \<Rightarrow> int) \<Rightarrow> int
     \<Rightarrow> Runtime \<Rightarrow> IEnvelope ISequencedDocumentMessage
     \<Rightarrow> (IEnvelope ISequencedDocumentMessage) outcome" where
  "transform channelTransform transformDocumentSequenceNumber deltaManagerMsn s message =
     (let envelope = msg_contents message in
      case map_of (channels s) (envelope_address envelope) of
        None \<Rightarrow> Throws TypeError s
      | Some objectDetails \<Rightarrow>
          (case connection objectDetails of
             None \<Rightarrow> Throws TypeError s
           | Some c \<Rightarrow>
               Returns
                 (message\<lparr>msg_contents :=
                    envelope\<lparr>envelope_contents :=
                      channelTransform (object objectDetails) (envelope_contents envelope)
                        (transformDocumentSequenceNumber c
                           (max (msg_referenceSequenceNumber message) deltaManagerMsn))\<rparr>\<rparr>)
                 s))"

definition getBlobMetadata :: "'m \<Rightarrow> Runtime \<Rightarrow> 'm outcome" where
  "getBlobMetadata blobManagerMetadata s = Returns blobManagerMetadata s"

definition close :: "Runtime \<Rightarrow> unit outcome" where
  "close s = Returns () (s\<lparr>effects := effects s @ [CloseRequested]\<rparr>)"

text \<open>
  \<open>loadChannel\<close> asks the module of the type for the channel. The module receives the
  services, so the sequence number that the source reads off the delta connection for it
  is not a separate argument here.
\<close>

definition loadChannel ::
  "IChaincode \<Rightarrow> Runtime \<Rightarrow> string \<Rightarrow> string \<Rightarrow> int \<Rightarrow> ISequencedObjectMessage list
     \<Rightarrow> IObjectServices \<Rightarrow> string \<Rightarrow> IChannelState outcome" where
  "loadChannel chaincode s i ty minSequenceNumber messages services originBranch =
     (case chaincode ty of
        None \<Rightarrow> Throws TypeError s
      | Some extension \<Rightarrow>
          Returns \<lparr>object = load extension s i minSequenceNumber messages services originBranch,
                   storage = Some (objectStorage services),
                   connection = Some (deltaConnection services)\<rparr> s)"

definition prepareAttach ::
  "IChaincode \<Rightarrow> Runtime \<Rightarrow> IAttachMessage ISequencedDocumentMessage \<Rightarrow> bool
     \<Rightarrow> (IChannelState option) outcome" where
  "prepareAttach chaincode s message local =
     (case verifyNotClosed s of
        Some e \<Rightarrow> Throws e s
      | None \<Rightarrow>
          if local then Returns None s
          else
            (let attachMessage = msg_contents message;
                 connection0 = newChannelDeltaConnection (attach_id attachMessage) (connectionState s)
             in case setBaseMapping 0 (msg_minimumSequenceNumber message) connection0 of
                  Inl e \<Rightarrow> Throws e s
                | Inr connection1 \<Rightarrow>
                    (let services = \<lparr>deltaConnection = connection1,
                                     objectStorage =
                                       LocalChannelStorageService (attach_snapshot attachMessage)\<rparr>;
                         origin = (case msg_origin message of Some o1 \<Rightarrow> o1 | None \<Rightarrow> documentId s)
                     in case loadChannel chaincode s (attach_id attachMessage)
                               (attach_type attachMessage) 0 [] services origin of
                          Throws e s1 \<Rightarrow> Throws e s1
                        | Returns v s1 \<Rightarrow> Returns (Some v) s1)))"

type_synonym IDocumentStorageService = "string \<Rightarrow> IObjectAttributes option"

definition readAndParse :: "IDocumentStorageService \<Rightarrow> string option \<Rightarrow> IObjectAttributes option" where
  "readAndParse storageService blobId = (case blobId of None \<Rightarrow> None | Some b \<Rightarrow> storageService b)"

definition loadSnapshotChannel ::
  "IChaincode \<Rightarrow> IDocumentStorageService \<Rightarrow> Runtime \<Rightarrow> string \<Rightarrow> ISnapshotTree
     \<Rightarrow> IEnvelope ISequencedDocumentMessage list \<Rightarrow> string \<Rightarrow> int \<Rightarrow> unit outcome" where
  "loadSnapshotChannel chaincode storageService s i tree messages branch msn =
     (case readAndParse storageService (map_of (blobs tree) ''.attributes'') of
        None \<Rightarrow> Throws StorageError s
      | Some channelAttributes \<Rightarrow>
          (let services0 = getObjectServices s i (Some tree) in
           case setBaseMapping (sequenceNumber channelAttributes) msn (deltaConnection services0) of
             Inl e \<Rightarrow> Throws e s
           | Inr connection1 \<Rightarrow>
               (let services = services0\<lparr>deltaConnection := connection1\<rparr>;
                    transformedObjectMessages = map (translateToObjectMessage connection1) messages
                in case loadChannel chaincode s i (attr_type channelAttributes)
                          (sequenceNumber channelAttributes) transformedObjectMessages services branch of
                     Throws e s1 \<Rightarrow> Throws e s1
                   | Returns channelDetails s1 \<Rightarrow>
                       if has (channels s1) i then Throws AssertionError s1
                       else
                         (let s2 = s1\<lparr>channels := AList.update i channelDetails (channels s1)\<rparr> in
                          case map_of (channelsDeferred s2) i of
                            None \<Rightarrow> Throws TypeError s2
                          | Some d \<Rightarrow>
                              Returns ()
                                (s2\<lparr>channelsDeferred :=
                                      AList.update i (resolve (object channelDetails) d)
                                        (channelsDeferred s2)\<rparr>)))))"

section \<open>Leader election\<close>

text \<open>
  The quorum is an object of the host; \<open>IQuorum\<close> is the member list it answers with at the
  moment of a call: the client id of each member and whether the member is eligible to lead.
\<close>

type_synonym IQuorum = "(string \<times> bool) list"

fun lowest :: "string list \<Rightarrow> string option" where
  "lowest [] = None"
| "lowest (x # xs) = (case lowest xs of None \<Rightarrow> Some x | Some y \<Rightarrow> Some (min x y))"

text \<open>
  Modelled from the spec: \<open>getLeaderCandidate\<close> is imported from \<^verbatim>\<open>taskAnalyzer.ts\<close>, which is
  not among the sources. The specification describes the candidate as the lowest-ordered
  eligible member of the current membership list.
\<close>

definition getLeaderCandidate :: "IQuorum \<Rightarrow> string option" where
  "getLeaderCandidate members = lowest (map fst (filter snd members))"

definition getQuorum :: "IQuorum \<Rightarrow> Runtime \<Rightarrow> IQuorum outcome" where
  "getQuorum quorum s =
     (case verifyNotClosed s of
        Some e \<Rightarrow> Throws e s
      | None \<Rightarrow> Returns quorum s)"

definition proposeLeadership :: "IQuorum \<Rightarrow> Runtime \<Rightarrow> unit outcome" where
  "proposeLeadership quorum s =
     (case getQuorum quorum s of
        Throws e s1 \<Rightarrow> Throws e s1
      | Returns members s1 \<Rightarrow>
          if getLeaderCandidate members = Some (clientId s1) then
            (case leaderElector s1 of
               None \<Rightarrow> Throws TypeError s1
             | Some elector \<Rightarrow>
                 Returns () (s1\<lparr>effects := effects s1 @ [LeadershipProposed elector]\<rparr>))
          else Returns () s1)"

definition initLeaderElection :: "IQuorum \<Rightarrow> Runtime \<Rightarrow> unit outcome" where
  "initLeaderElection quorum s =
     (case getQuorum quorum s of
        Throws e s1 \<Rightarrow> Throws e s1
      | Returns members s1 \<Rightarrow> proposeLeadership quorum (s1\<lparr>leaderElector := Some (clientId s1)\<rparr>))"

definition connected :: "Runtime \<Rightarrow> bool" where
  "connected s = (connectionState s = Connected)"

text \<open>
  \<open>startLeaderElection\<close>: \<open>browser\<close> says whether the delta manager exists and its client
  is a browser. A runtime that is not connected adds a listener that waits for the
  \<open>connected\<close> event.
\<close>

definition startLeaderElection :: "bool \<Rightarrow> IQuorum \<Rightarrow> Runtime \<Rightarrow> unit outcome" where
  "startLeaderElection browser quorum s =
     (if browser then
        (if connected s then initLeaderElection quorum s
         else Returns () (s\<lparr>effects := effects s @ [ListenerAdded ''connected'']\<rparr>))
      else Returns () s)"

definition registerTasks ::
  "bool \<Rightarrow> IQuorum \<Rightarrow> Runtime \<Rightarrow> string list \<Rightarrow> string option \<Rightarrow> unit outcome" where
  "registerTasks browser quorum s ts v =
     (case verifyNotClosed s of
        Some e \<Rightarrow> Throws e s
      | None \<Rightarrow> startLeaderElection browser quorum (s\<lparr>tasks := ts, version := v\<rparr>))"

definition final :: "'a outcome \<Rightarrow> Runtime" where
  "final r = (case r of Throws e s \<Rightarrow> s | Returns v s \<Rightarrow> s)"

definition included :: "heap \<Rightarrow> IChannelState \<Rightarrow> bool" where
  "included h obj =
     (\<not> isLocal (h (object obj))
      \<and> (case connection obj of None \<Rightarrow> False | Some c \<Rightarrow> baseMappingIsSet c))"


section \<open>Component contexts\<close>

text \<open>
  Modelled from the spec: \<^verbatim>\<open>componentContext.ts\<close> (the classes \<open>LocalComponentContext\<close>
  and \<open>RemotedComponentContext\<close>) is not among the sources; only its test file is. The
  definitions of this section follow the specification: a registry answers a package name
  with an entry that may offer a factory, a sub-registry, or both; resolution descends one
  registry level per path element; a path of several elements whose prefix does not
  resolve to a sub-registry, and the empty path, are malformed; a lookup that finds no
  factory is an unresolved type. The persisted attributes are \<open>pkg\<close>, the JSON text of
  the package path or a bare identifier in the oldest format, and the optional
  \<open>snapshotFormatVersion\<close>.
\<close>

datatype registry_entry =
  RegistryEntry (IComponentFactory: bool)
                (IComponentRegistry: "(string \<Rightarrow> registry_entry option) option")

type_synonym registry = "string \<Rightarrow> registry_entry option"

datatype context_error = MalformedPackagePathError | UnresolvedTypeError

text \<open>
  Modelled from the spec: package-path resolution of the component context, missing with
  \<^verbatim>\<open>componentContext.ts\<close>.
\<close>

fun resolvePackagePath :: "registry \<Rightarrow> string list \<Rightarrow> context_error + registry_entry" where
  "resolvePackagePath r [] = Inl MalformedPackagePathError"
| "resolvePackagePath r [p] =
     (case r p of
        None \<Rightarrow> Inl UnresolvedTypeError
      | Some e \<Rightarrow> if IComponentFactory e then Inr e else Inl UnresolvedTypeError)"
| "resolvePackagePath r (p # q # ps) =
     (case r p of
        None \<Rightarrow> Inl MalformedPackagePathError
      | Some e \<Rightarrow>
          (case IComponentRegistry e of
             None \<Rightarrow> Inl MalformedPackagePathError
           | Some sub \<Rightarrow> resolvePackagePath sub (q # ps)))"

record IComponentAttributes =
  pkg :: string
  snapshotFormatVersion :: "string option"

fun join :: "string list \<Rightarrow> string" where
  "join [] = []"
| "join [x] = x"
| "join (x # y # ys) = x @ '','' @ join (y # ys)"

definition JSON_stringify_array :: "string list \<Rightarrow> string" where
  "JSON_stringify_array xs = ''['' @ join (map JSON_stringify_string xs) @ '']''"

text \<open>
  Modelled from the spec: reading the persisted attributes, missing with
  \<^verbatim>\<open>componentContext.ts\<close>. Without a version, \<open>pkg\<close> is a bare identifier; with one,
  it is the JSON text of the path, read by the host's \<open>JSON.parse\<close>, the parameter
  \<open>parse\<close> (\<open>None\<close> when it throws).
\<close>

definition readPackagePath ::
  "(string \<Rightarrow> string list option) \<Rightarrow> IComponentAttributes \<Rightarrow> context_error + string list" where
  "readPackagePath parse attributes =
     (case snapshotFormatVersion attributes of
        None \<Rightarrow> Inr [pkg attributes]
      | Some v \<Rightarrow>
          (case parse (pkg attributes) of
             None \<Rightarrow> Inl MalformedPackagePathError
           | Some ps \<Rightarrow> Inr ps))"

definition currentSnapshotFormatVersion :: string where
  "currentSnapshotFormatVersion = ''0.1''"

text \<open>
  Modelled from the spec: the attributes a component context writes, missing with
  \<^verbatim>\<open>componentContext.ts\<close>: the JSON text of the path and the current format version.
\<close>

definition componentAttributes :: "string list \<Rightarrow> IComponentAttributes" where
  "componentAttributes packagePath =
     \<lparr>pkg = JSON_stringify_array packagePath,
      snapshotFormatVersion = Some currentSnapshotFormatVersion\<rparr>"

record LocalComponentContext =
  local_id :: string
  local_pkg :: "string list"
  local_registry :: registry

record RemotedComponentContext =
  remoted_id :: string
  remoted_attributes :: IComponentAttributes
  remoted_registry :: registry

record ComponentAttachMessage =
  component_id :: string
  component_type :: string
  component_attributes :: IComponentAttributes

text \<open>
  Modelled from the spec: \<open>LocalComponentContext.realize\<close> and
  \<open>generateAttachMessage\<close>, missing with \<^verbatim>\<open>componentContext.ts\<close>. The attach
  message declares the last path element as its type and carries the attributes.
\<close>

definition realize :: "LocalComponentContext \<Rightarrow> context_error + registry_entry" where
  "realize ctx = resolvePackagePath (local_registry ctx) (local_pkg ctx)"

definition generateAttachMessage :: "LocalComponentContext \<Rightarrow> context_error + ComponentAttachMessage" where
  "generateAttachMessage ctx =
     (case realize ctx of
        Inl e \<Rightarrow> Inl e
      | Inr factory \<Rightarrow>
          Inr \<lparr>component_id = local_id ctx,
               component_type = last (local_pkg ctx),
               component_attributes = componentAttributes (local_pkg ctx)\<rparr>)"

text \<open>
  Modelled from the spec: \<open>RemotedComponentContext.snapshot\<close>, missing with
  \<^verbatim>\<open>componentContext.ts\<close>, as far as the attributes it emits.
\<close>

definition remoted_snapshot ::
  "(string \<Rightarrow> string list option) \<Rightarrow> RemotedComponentContext
     \<Rightarrow> context_error + IComponentAttributes" where
  "remoted_snapshot parse ctx =
     (case readPackagePath parse (remoted_attributes ctx) of
        Inl e \<Rightarrow> Inl e
      | Inr packagePath \<Rightarrow> Inr (componentAttributes packagePath))"

text \<open>
  The calls a host can make on the runtime, each with what the collaborators answer
  during the call, and the state each call leaves, whether it returns or throws.
\<close>

datatype operation =
  CallGetChannel string
| CallCreateChannel IChaincode string string
| CallAttachChannel heap ref
| CallReady "ref \<Rightarrow> error option"
| CallStart "Runtime \<Rightarrow> IPlatform \<Rightarrow> error + IPlatform" IPlatform
| CallChangeConnectionState ConnectionState string
| CallPrepare "IEnvelope ISequencedDocumentMessage" bool
| CallProcess
    "ChannelDeltaConnection \<Rightarrow> IEnvelope ISequencedDocumentMessage \<Rightarrow> bool \<Rightarrow> string
       \<Rightarrow> error + ChannelDeltaConnection"
    "IEnvelope ISequencedDocumentMessage" bool string
| CallProcessAttach heap "IAttachMessage ISequencedDocumentMessage" bool "IChannelState option"
| CallPrepareAttach IChaincode "IAttachMessage ISequencedDocumentMessage" bool
| CallGetQuorum IQuorum
| CallHasUnackedOps heap
| CallSnapshot string
| CallSave string
| CallUploadBlob "string \<Rightarrow> string" "string \<Rightarrow> string" "IGenericBlob \<Rightarrow> error + IGenericBlob"
    IGenericBlob
| CallGetBlob string
| CallTransform "IEnvelope ISequencedDocumentMessage"
| CallGetBlobMetadata
| CallStop "IObjectAttributes \<Rightarrow> string" heap
| CallClose
| CallUpdateMinSequenceNumber "int \<Rightarrow> ChannelDeltaConnection \<Rightarrow> ChannelDeltaConnection" heap int
| CallSnapshotInternal "IObjectAttributes \<Rightarrow> string" heap
| CallSubmitMessage MessageType content
| CallRegisterTasks bool IQuorum "string list" "string option"
| CallLoadSnapshotChannel IChaincode IDocumentStorageService string ISnapshotTree
    "IEnvelope ISequencedDocumentMessage list" string int
| CallProposeLeadership IQuorum

fun perform :: "operation \<Rightarrow> Runtime \<Rightarrow> Runtime" where
  "perform (CallGetChannel i) s = final (getChannel s i)"
| "perform (CallCreateChannel chaincode i ty) s = final (createChannel chaincode s i ty)"
| "perform (CallAttachChannel h channel) s = final (attachChannel h s channel)"
| "perform (CallReady readyOf) s = final (ready readyOf s)"
| "perform (CallStart chaincodeRun p) s = final (start chaincodeRun s p)"
| "perform (CallChangeConnectionState v cid) s = final (changeConnectionState s v cid)"
| "perform (CallPrepare message local) s = final (prepare (\<lambda>c m l. ()) s message local)"
| "perform (CallProcess connectionProcess message local ctx) s =
     final (process connectionProcess s message local ctx)"
| "perform (CallProcessAttach h message local ctx) s = final (processAttach h s message local ctx)"
| "perform (CallPrepareAttach chaincode message local) s = final (prepareAttach chaincode s message local)"
| "perform (CallGetQuorum quorum) s = final (getQuorum quorum s)"
| "perform (CallHasUnackedOps h) s = final (hasUnackedOps h s)"
| "perform (CallSnapshot message) s = final (snapshot s message)"
| "perform (CallSave tag) s = final (save s tag)"
| "perform (CallUploadBlob gitHashFile getRawUrl createBlob file) s =
     final (uploadBlob gitHashFile getRawUrl createBlob s file)"
| "perform (CallGetBlob sha) s = final (getBlob (\<lambda>x. ()) s sha)"
| "perform (CallTransform message) s = final (transform (\<lambda>r m n. m) (\<lambda>c n. n) 0 s message)"
| "perform (CallGetBlobMetadata) s = final (getBlobMetadata () s)"
| "perform (CallStop stringify h) s = final (stop stringify h s)"
| "perform (CallClose) s = final (close s)"
| "perform (CallUpdateMinSequenceNumber update h msn) s = final (updateMinSequenceNumber update h s msn)"
| "perform (CallSnapshotInternal stringify h) s = final (snapshotInternal stringify h s)"
| "perform (CallSubmitMessage t c) s = final (submitMessage s t c)"
| "perform (CallRegisterTasks browser quorum ts v) s = final (registerTasks browser quorum s ts v)"
| "perform (CallLoadSnapshotChannel chaincode storageService i tree messages branch msn) s =
     final (loadSnapshotChannel chaincode storageService s i tree messages branch msn)"
| "perform (CallProposeLeadership quorum) s = final (proposeLeadership quorum s)"

definition run :: "operation list \<Rightarrow> Runtime \<Rightarrow> Runtime" where
  "run ops s = fold perform ops s"

fun concerns :: "string \<Rightarrow> operation \<Rightarrow> bool" where
  "concerns i (CallCreateChannel chaincode j ty) = (j = i)"
| "concerns i (CallAttachChannel h channel) = (channel_id (h channel) = i)"
| "concerns i (CallProcess connectionProcess message local ctx) =
     (envelope_address (msg_contents message) = i)"
| "concerns i (CallProcessAttach h message local ctx) =
     (if local then attach_id (msg_contents message) = i
      else (case ctx of None \<Rightarrow> False | Some st \<Rightarrow> channel_id (h (object st)) = i))"
| "concerns i (CallLoadSnapshotChannel chaincode storageService j tree messages branch msn) = (j = i)"
| "concerns i other = False"

definition awaiting :: "Runtime \<Rightarrow> string \<Rightarrow> bool" where
  "awaiting s i =
     (distinct (map fst (channels s)) \<and> has (pendingAttach s) i
      \<and> (case map_of (channels s) i of
            None \<Rightarrow> False
          | Some obj \<Rightarrow>
              (case connection obj of None \<Rightarrow> False | Some c \<Rightarrow> \<not> baseMappingIsSet c)))"

section \<open>Host functions for the examples\<close>

text \<open>
  \<open>JSON.stringify\<close>, \<open>JSON.parse\<close> and the update of a delta connection are parameters
  of the operations that call them, and the theorems hold for every choice of them. The
  examples need concrete ones. \<open>example_stringify\<close> writes the text of
  \<open>JSON_stringify_attributes\<close> wherever that text is given, which is where it is the
  text of \<open>JSON.stringify\<close>; no example leaves that range.
\<close>

definition example_stringify :: "IObjectAttributes \<Rightarrow> string" where
  "example_stringify a = (case JSON_stringify_attributes a of Some t \<Rightarrow> t | None \<Rightarrow> [])"

text \<open>
  \<open>advance\<close> is a delta connection that takes every minimum sequence number it is
  handed, with no test of its own.
\<close>

definition advance :: "int \<Rightarrow> ChannelDeltaConnection \<Rightarrow> ChannelDeltaConnection" where
  "advance msn c = c\<lparr>minimumSequenceNumber := msn\<rparr>"

text \<open>
  \<open>read_array\<close> reads the JSON text of an array of strings, as \<open>JSON.parse\<close> does: white
  space is allowed around the brackets, the items and the commas; inside a string a
  backslash starts an escape, which is one of the quote, the backslash, the slash, the
  letters \<open>b\<close>, \<open>f\<close>, \<open>n\<close>, \<open>r\<close>, \<open>t\<close>, or \<open>u\<close> with four hexadecimal digits, and
  a raw control character is an error. The characters of this theory are bytes, so a
  \<open>u\<close> escape of a code point from 256 on is answered with \<open>None\<close>, as is any text
  that is not an array of strings.
\<close>

definition unescape :: "char \<Rightarrow> char option" where
  "unescape e =
     (if e = CHR 0x22 then Some (CHR 0x22)
      else if e = CHR 0x5C then Some (CHR 0x5C)
      else if e = CHR ''/'' then Some (CHR ''/'')
      else if e = CHR ''b'' then Some (CHR 0x08)
      else if e = CHR ''f'' then Some (CHR 0x0C)
      else if e = CHR ''n'' then Some (CHR 0x0A)
      else if e = CHR ''r'' then Some (CHR 0x0D)
      else if e = CHR ''t'' then Some (CHR 0x09)
      else None)"

definition hexval :: "char \<Rightarrow> nat option" where
  "hexval c =
     (let n = (of_char c :: nat) in
      if 48 \<le> n \<and> n \<le> 57 then Some (n - 48)
      else if 97 \<le> n \<and> n \<le> 102 then Some (n - 87)
      else if 65 \<le> n \<and> n \<le> 70 then Some (n - 55)
      else None)"

definition whitespace :: "char \<Rightarrow> bool" where
  "whitespace c = (c = CHR 0x20 \<or> c = CHR 0x09 \<or> c = CHR 0x0A \<or> c = CHR 0x0D)"

datatype scan_state =
  Start | Opened | InString | Escaped | Hex nat nat | AfterItem | NextItem | Finished

fun scan :: "scan_state \<Rightarrow> string \<Rightarrow> string list \<Rightarrow> string \<Rightarrow> string list option" where
  "scan st cur acc [] = (if st = Finished then Some (rev acc) else None)"
| "scan st cur acc (c # cs) =
     (case st of
        Start \<Rightarrow>
          if whitespace c then scan Start [] acc cs
          else if c = CHR ''['' then scan Opened [] acc cs
          else None
      | Opened \<Rightarrow>
          if whitespace c then scan Opened [] acc cs
          else if c = CHR '']'' then scan Finished [] acc cs
          else if c = CHR 0x22 then scan InString [] acc cs
          else None
      | NextItem \<Rightarrow>
          if whitespace c then scan NextItem [] acc cs
          else if c = CHR 0x22 then scan InString [] acc cs
          else None
      | InString \<Rightarrow>
          if c = CHR 0x22 then scan AfterItem [] (rev cur # acc) cs
          else if c = CHR 0x5C then scan Escaped cur acc cs
          else if (of_char c :: nat) < 32 then None
          else scan InString (c # cur) acc cs
      | Escaped \<Rightarrow>
          if c = CHR ''u'' then scan (Hex 4 0) cur acc cs
          else
            (case unescape c of
               None \<Rightarrow> None
             | Some d \<Rightarrow> scan InString (d # cur) acc cs)
      | Hex k v \<Rightarrow>
          (case hexval c of
             None \<Rightarrow> None
           | Some d \<Rightarrow>
               if k \<le> 1 then
                 (if 16 * v + d < 256 then scan InString (char_of (16 * v + d) # cur) acc cs
                  else None)
               else scan (Hex (k - 1) (16 * v + d)) cur acc cs)
      | AfterItem \<Rightarrow>
          if whitespace c then scan AfterItem [] acc cs
          else if c = CHR '','' then scan NextItem [] acc cs
          else if c = CHR '']'' then scan Finished [] acc cs
          else None
      | Finished \<Rightarrow> if whitespace c then scan Finished [] acc cs else None)"

definition read_array :: "string \<Rightarrow> string list option" where
  "read_array s = scan Start [] [] s"

section \<open>Example states\<close>

definition example_message :: IAttachMessage where
  "example_message = \<lparr>attach_id = ''c1'', attach_snapshot = ITree [], attach_type = ''TypeA''\<rparr>"

definition example_connection :: ChannelDeltaConnection where
  "example_connection = newChannelDeltaConnection ''c1'' Disconnected"

definition pending_runtime :: Runtime where
  "pending_runtime =
     \<lparr>documentId = ''doc'',
      channels = [(''c1'', \<lparr>object = 11, storage = Some (ChannelStorageService None),
                            connection = Some example_connection\<rparr>)],
      channelsDeferred = [(''c1'', Some 11)],
      closed = False,
      pendingAttach = [(''c1'', example_message)],
      connectionState = Disconnected,
      clientId = ''client-1'',
      leaderElector = None,
      platform = None,
      tasks = [],
      version = None,
      effects = []\<rparr>"

definition example_heap :: heap where
  "example_heap r =
     (if r = 11
      then \<lparr>channel_id = ''c1'', channel_type = ''TypeA'', isLocal = False,
            channel_snapshot = [ITreeEntry File ''header'' ''Blob'' (IBlob ''abc'' ''utf-8'')],
            dirty = False\<rparr>
      else \<lparr>channel_id = ''c2'', channel_type = ''TypeB'', isLocal = True,
            channel_snapshot = [], dirty = True\<rparr>)"

definition attached_heap :: heap where
  "attached_heap r = (example_heap r)\<lparr>isLocal := False\<rparr>"

definition mapped_connection :: ChannelDeltaConnection where
  "mapped_connection =
     \<lparr>conn_objectId = ''c1'', conn_state = Connected, baseMapping = Some (0, 5),
      minimumSequenceNumber = 5\<rparr>"

definition attached_runtime :: Runtime where
  "attached_runtime =
     \<lparr>documentId = ''doc'',
      channels = [(''c1'', \<lparr>object = 11, storage = Some (ChannelStorageService None),
                            connection = Some mapped_connection\<rparr>),
                  (''c2'', \<lparr>object = 12, storage = None, connection = None\<rparr>)],
      channelsDeferred = [(''c1'', Some 11), (''c2'', Some 12)],
      closed = False,
      pendingAttach = [],
      connectionState = Connected,
      clientId = ''client-1'',
      leaderElector = None,
      platform = None,
      tasks = [],
      version = None,
      effects = []\<rparr>"

definition c1_attributes :: string where
  \<open>c1_attributes = ''{"sequenceNumber":5,"type":"TypeA"}''\<close>

definition c1_tree :: ITreeEntry where
  "c1_tree =
     ITreeEntry Directory ''c1'' ''Tree''
       (ITree [ITreeEntry File ''header'' ''Blob'' (IBlob ''abc'' ''utf-8''),
               ITreeEntry File ''.attributes'' ''Blob''
                 (IBlob c1_attributes ''utf-8'')])"

definition echo_message :: "IAttachMessage ISequencedDocumentMessage" where
  "echo_message =
     \<lparr>msg_contents = example_message, msg_minimumSequenceNumber = 7,
      msg_sequenceNumber = 12, msg_referenceSequenceNumber = 7, msg_origin = None\<rparr>"

definition stopped_runtime :: Runtime where
  "stopped_runtime = attached_runtime\<lparr>closed := True\<rparr>"

definition example_chaincode :: IChaincode where
  "example_chaincode ty =
     (if ty = ''TypeA'' then Some \<lparr>create = (\<lambda>s i. 21), load = (\<lambda>s i m ms sv b. 31)\<rparr>
      else if ty = ''TypeB'' then Some \<lparr>create = (\<lambda>s i. 22), load = (\<lambda>s i m ms sv b. 32)\<rparr>
      else None)"

definition empty_runtime :: Runtime where
  "empty_runtime =
     \<lparr>documentId = ''doc'', channels = [], channelsDeferred = [], closed = False,
      pendingAttach = [], connectionState = Connected, clientId = ''B'',
      leaderElector = Some ''B'', platform = None, tasks = [], version = None,
      effects = []\<rparr>"

definition created_once :: Runtime where
  "created_once =
     empty_runtime\<lparr>channels := [(''c1'', \<lparr>object = 21, storage = None, connection = None\<rparr>)],
                   channelsDeferred := [(''c1'', Some 21)]\<rparr>"

definition created_twice :: Runtime where
  "created_twice =
     empty_runtime\<lparr>channels := [(''c1'', \<lparr>object = 22, storage = None, connection = None\<rparr>)],
                   channelsDeferred := [(''c1'', Some 21)]\<rparr>"

definition example_storage :: IDocumentStorageService where
  "example_storage b =
     (if b = ''blob-1'' then Some \<lparr>sequenceNumber = 3, attr_type = ''TypeA''\<rparr> else None)"

definition example_tree :: ISnapshotTree where
  "example_tree = \<lparr>blobs = [(''.attributes'', ''blob-1'')]\<rparr>"

definition remaining_members :: IQuorum where
  "remaining_members = [(''B'', True), (''C'', True)]"

definition factory_only :: registry where
  "factory_only p = Some (RegistryEntry True None)"

definition nested_registry :: registry where
  "nested_registry p =
     (if p = ''Comp''
      then Some (RegistryEntry True
             (Some (\<lambda>q. if q = ''Sub'' then Some (RegistryEntry True None) else None)))
      else None)"

definition foo_canonical :: string where
  \<open>foo_canonical = ''["Foo"]''\<close>


definition comp_sub_context :: "registry \<Rightarrow> LocalComponentContext" where
  "comp_sub_context r = \<lparr>local_id = ''Test1'', local_pkg = [''Comp'', ''Sub''], local_registry = r\<rparr>"

definition comp_sub_canonical :: string where
  \<open>comp_sub_canonical = ''["Comp","Sub"]''\<close>

definition foo_context :: RemotedComponentContext where
  "foo_context =
     \<lparr>remoted_id = ''Test1'',
      remoted_attributes = \<lparr>pkg = ''Foo'', snapshotFormatVersion = None\<rparr>,
      remoted_registry = factory_only\<rparr>"

definition c2_message :: IAttachMessage where
  "c2_message = \<lparr>attach_id = ''c2'', attach_snapshot = ITree [], attach_type = ''TypeB''\<rparr>"

definition reconnected_runtime :: Runtime where
  "reconnected_runtime =
     attached_runtime
       \<lparr>channels :=
          [(''c1'', \<lparr>object = 11, storage = Some (ChannelStorageService None),
                     connection = Some mapped_connection\<rparr>),
           (''c2'', \<lparr>object = 12, storage = Some (ChannelStorageService None),
                     connection = Some (newChannelDeltaConnection ''c2'' Connected)\<rparr>)],
        pendingAttach := [(''c2'', c2_message)],
        clientId := ''client-2'',
        effects := [Submitted Attach (AttachContent c2_message),
                    Submitted Attach (AttachContent c2_message),
                    Emitted ''connected'' ''client-2'']\<rparr>"

definition reconnect :: "operation list" where
  "reconnect = [CallChangeConnectionState Disconnected ''client-1'',
                CallChangeConnectionState Connected ''client-2'']"

definition operation_message :: "IEnvelope ISequencedDocumentMessage" where
  "operation_message =
     \<lparr>msg_contents = \<lparr>envelope_address = ''c1'', envelope_contents = ''op''\<rparr>,
      msg_minimumSequenceNumber = 5, msg_sequenceNumber = 12,
      msg_referenceSequenceNumber = 7, msg_origin = None\<rparr>"

definition example_blob :: IGenericBlob where
  "example_blob = \<lparr>blob_content = ''data'', blob_sha = ''sha-1'', blob_url = ''url-1''\<rparr>"

definition spaced_canonical :: string where
  \<open>spaced_canonical = '' [ "Comp" , "Sub" ] ''\<close>

definition example_transform :: "ref \<Rightarrow> IObjectMessage \<Rightarrow> int \<Rightarrow> IObjectMessage" where
  "example_transform channel contents0 sequenceNumber0 = ''transformed''"

definition example_sequence :: "ChannelDeltaConnection \<Rightarrow> int \<Rightarrow> int" where
  "example_sequence c n = n"

definition transformed_message :: "IEnvelope ISequencedDocumentMessage" where
  "transformed_message =
     \<lparr>msg_contents = \<lparr>envelope_address = ''c1'', envelope_contents = ''transformed''\<rparr>,
      msg_minimumSequenceNumber = 5, msg_sequenceNumber = 12,
      msg_referenceSequenceNumber = 7, msg_origin = None\<rparr>"

section \<open>Connection state changes\<close>

lemma resubmit_open:
  "\<not> closed s \<Longrightarrow>
   resubmit s ms =
     Returns () (s\<lparr>effects := effects s @ map (\<lambda>(k, m). Submitted Attach (AttachContent m)) ms\<rparr>)"
proof (induction ms arbitrary: s)
  case Nil
  then show ?case by simp
next
  case (Cons km ms)
  obtain k m where km: "km = (k, m)" by (cases km)
  let ?s1 = "s\<lparr>effects := effects s @ [Submitted Attach (AttachContent m)]\<rparr>"
  have "\<not> closed ?s1" using Cons.prems by simp
  from Cons.IH [OF this] show ?case
    using Cons.prems by (simp add: km submit_def verifyNotClosed_def)
qed

text \<open>
  C10. Calling \<open>changeConnectionState\<close> with the value the runtime already holds changes
  nothing: the client id, the pending attach messages, the effects (no resubmission, no
  \<open>connected\<close> event) and every channel's delta connection are the ones of the state
  before the call. On a closed runtime the call throws, also without any change.
\<close>

theorem changeConnectionState_same_value:
  "changeConnectionState s (connectionState s) cid =
     (if closed s then Throws closedError s else Returns () s)"
  by (simp add: changeConnectionState_def verifyNotClosed_def)

theorem changeConnectionState_same_value_witness:
  "changeConnectionState pending_runtime Disconnected ''client-2'' = Returns () pending_runtime
   \<and> clientId pending_runtime = ''client-1''"
  using changeConnectionState_same_value [of pending_runtime "''client-2''"]
  by (simp add: pending_runtime_def)

text \<open>
  C4. When the connection state of an open runtime changes to \<open>Connected\<close>, the call
  returns; the effects it adds are exactly one \<open>Attach\<close> submission per pending attach
  message, carrying the stored message unchanged and in the order of the pending set,
  followed by the \<open>connected\<close> event; the pending set is unchanged and the channel map
  has the same ids as before, each with the same channel object. The stored message is
  the one that \<open>attachChannel\<close> submitted when it made the channel pending.
\<close>

theorem changeConnectionState_connected:
  "(\<not> closed s \<and> connectionState s \<noteq> Connected \<longrightarrow>
      (\<exists>s'. changeConnectionState s Connected cid = Returns () s'
         \<and> effects s' = effects s
              @ map (\<lambda>(k, m). Submitted Attach (AttachContent m)) (pendingAttach s)
              @ [Emitted ''connected'' cid]
         \<and> pendingAttach s' = pendingAttach s
         \<and> map fst (channels s') = map fst (channels s)
         \<and> map (\<lambda>(k, st). object st) (channels s') = map (\<lambda>(k, st). object st) (channels s)))
   \<and> (attachChannel h s0 ch = Returns sv s \<longrightarrow>
        (\<exists>m. map_of (pendingAttach s) (channel_id (h ch)) = Some m
           \<and> effects s = effects s0 @ [Submitted Attach (AttachContent m)]))"
proof (intro conjI impI)
  assume a: "\<not> closed s \<and> connectionState s \<noteq> Connected"
  let ?s1 = "s\<lparr>connectionState := Connected, clientId := cid\<rparr>"
  have open1: "\<not> closed ?s1" using a by simp
  have n: "\<not> closed s" "Connected \<noteq> connectionState s" using a by auto
  have objs: "map (\<lambda>(k, st). object st) (map (\<lambda>(k, st). (k, notifyChannel Connected st)) xs)
      = map (\<lambda>(k, st). object st) xs" for xs :: "(string \<times> IChannelState) list"
    by (induction xs) (auto simp: notifyChannel_def split: option.splits)
  have keys: "map fst (map (\<lambda>(k, st). (k, notifyChannel Connected st)) xs) = map fst xs"
    for xs :: "(string \<times> IChannelState) list"
    by (induction xs) auto
  show "\<exists>s'. changeConnectionState s Connected cid = Returns () s'
         \<and> effects s' = effects s
              @ map (\<lambda>(k, m). Submitted Attach (AttachContent m)) (pendingAttach s)
              @ [Emitted ''connected'' cid]
         \<and> pendingAttach s' = pendingAttach s
         \<and> map fst (channels s') = map fst (channels s)
         \<and> map (\<lambda>(k, st). object st) (channels s') = map (\<lambda>(k, st). object st) (channels s)"
    using n resubmit_open [OF open1, of "pendingAttach s"] objs keys
    by (simp add: changeConnectionState_def verifyNotClosed_def)
next
  assume "attachChannel h s0 ch = Returns sv s"
  then show "\<exists>m. map_of (pendingAttach s) (channel_id (h ch)) = Some m
           \<and> effects s = effects s0 @ [Submitted Attach (AttachContent m)]"
    by (auto simp: attachChannel_def verifyNotClosed_def submit_def Let_def update_conv'
        split: option.splits if_splits)
qed

theorem changeConnectionState_connected_witness:
  "\<exists>sv s1 s2. attachChannel example_heap attached_runtime 12 = Returns sv s1
     \<and> changeConnectionState s1 Disconnected ''client-1'' = Returns () s2
     \<and> \<not> closed s2 \<and> connectionState s2 \<noteq> Connected
     \<and> changeConnectionState s2 Connected ''client-2'' = Returns () reconnected_runtime"
proof -
  obtain sv s1 where a: "attachChannel example_heap attached_runtime 12 = Returns sv s1"
    by (simp add: attachChannel_def verifyNotClosed_def submit_def attached_runtime_def
        example_heap_def Let_def)
  note t = changeConnectionState_connected
  from t [where h = example_heap and ?s0.0 = attached_runtime and ch = 12 and sv = sv
      and s = s1] a
  have e1: "effects s1 = [Submitted Attach (AttachContent c2_message)]"
    and p1: "pendingAttach s1 = [(''c2'', c2_message)]"
    using a
    by (auto simp: attachChannel_def verifyNotClosed_def submit_def attached_runtime_def
        example_heap_def Let_def c2_message_def)
  obtain s2 where d: "changeConnectionState s1 Disconnected ''client-1'' = Returns () s2"
    using a
    by (auto simp: attachChannel_def verifyNotClosed_def submit_def attached_runtime_def
        example_heap_def Let_def changeConnectionState_def)
  have o: "\<not> closed s2 \<and> connectionState s2 \<noteq> Connected"
    using a d
    by (auto simp: attachChannel_def verifyNotClosed_def submit_def attached_runtime_def
        example_heap_def Let_def changeConnectionState_def)
  from t [where s = s2 and cid = "''client-2''"] o obtain s3 where
    c: "changeConnectionState s2 Connected ''client-2'' = Returns () s3"
    by blast
  have "s3 = reconnected_runtime"
    using a d c
    by (auto simp: attachChannel_def verifyNotClosed_def submit_def attached_runtime_def
        example_heap_def Let_def changeConnectionState_def reconnected_runtime_def
        c2_message_def getObjectServices_def notifyChannel_def setConnectionState_def
        newChannelDeltaConnection_def mapped_connection_def)
  with a d o c show ?thesis by blast
qed

section \<open>Snapshots\<close>

lemma snapshotEntries_Inr:
  "snapshotEntries stringify h cs = Inr es \<Longrightarrow>
   es = map (\<lambda>(k, obj).
               ITreeEntry Directory k ''Tree''
                 (ITree (channel_snapshot (h (object obj))
                         @ [ITreeEntry File ''.attributes'' ''Blob''
                              (IBlob (stringify
                                        \<lparr>sequenceNumber = minimumSequenceNumber (the (connection obj)),
                                         attr_type = channel_type (h (object obj))\<rparr>)
                                     ''utf-8'')])))
            (filter (\<lambda>(k, obj). included h obj) cs)"
proof (induction cs arbitrary: es)
  case Nil
  then show ?case by simp
next
  case (Cons a cs)
  obtain k obj where a: "a = (k, obj)" by (cases a)
  from Cons.prems obtain r es0 where
    r: "snapshotChannel stringify h k obj = Inr r"
    and es0: "snapshotEntries stringify h cs = Inr es0"
    and es: "es = (case r of None \<Rightarrow> es0 | Some entry \<Rightarrow> entry # es0)"
    by (auto simp: a split: sum.splits)
  note ih = Cons.IH [OF es0]
  from r ih show ?case
    unfolding es a
    by (auto simp: snapshotChannel_def included_def Let_def
        split: if_splits option.splits)
qed

lemma snapshotEntries_total:
  "\<forall>(k, obj) \<in> set cs. isLocal (h (object obj)) \<or> connection obj \<noteq> None \<Longrightarrow>
   \<exists>es. snapshotEntries stringify h cs = Inr es"
proof (induction cs)
  case Nil
  then show ?case by simp
next
  case (Cons a cs)
  obtain k obj where a: "a = (k, obj)" by (cases a)
  from Cons obtain es0 where es0: "snapshotEntries stringify h cs = Inr es0" by auto
  from Cons.prems have "isLocal (h (object obj)) \<or> connection obj \<noteq> None" by (simp add: a)
  then have "\<exists>r. snapshotChannel stringify h k obj = Inr r"
    by (cases "connection obj") (auto simp: snapshotChannel_def Let_def)
  then show ?case by (auto simp: a es0)
qed

lemma stringify_TypeA:
  "example_stringify \<lparr>sequenceNumber = 5, attr_type = ''TypeA''\<rparr> = c1_attributes"
  by (simp add: example_stringify_def JSON_stringify_attributes_def JSON_stringify_string_def
      escape_char_def JSON_stringify_number_def digits.simps c1_attributes_def)

section \<open>Minimum sequence number updates\<close>

lemma updateChannel_Inr:
  "updateChannel update h msn obj = Inr obj' \<Longrightarrow>
   obj' = (if included h obj
           then obj\<lparr>connection := map_option (update msn) (connection obj)\<rparr> else obj)"
  by (auto simp: updateChannel_def included_def split: if_splits option.splits)

lemma updateChannels_None:
  "updateChannels update h msn cs = (None, cs') \<Longrightarrow>
   cs' = map (\<lambda>(k, obj).
                (k, if included h obj
                    then obj\<lparr>connection := map_option (update msn) (connection obj)\<rparr>
                    else obj)) cs"
proof (induction cs arbitrary: cs')
  case Nil
  then show ?case by simp
next
  case (Cons a cs)
  obtain k obj where a: "a = (k, obj)" by (cases a)
  from Cons.prems obtain obj' rest' where
    o: "updateChannel update h msn obj = Inr obj'"
    and r: "updateChannels update h msn cs = (None, rest')"
    and c: "cs' = (k, obj') # rest'"
    by (auto simp: a split: sum.splits prod.splits)
  from Cons.IH [OF r] updateChannel_Inr [OF o] show ?case by (simp add: a c)
qed

lemma updateChannels_total:
  "\<forall>(k, obj) \<in> set cs. isLocal (h (object obj)) \<or> connection obj \<noteq> None \<Longrightarrow>
   \<exists>cs'. updateChannels update h msn cs = (None, cs')"
proof (induction cs)
  case Nil
  then show ?case by simp
next
  case (Cons a cs)
  obtain k obj where a: "a = (k, obj)" by (cases a)
  from Cons obtain rest' where r: "updateChannels update h msn cs = (None, rest')" by auto
  from Cons.prems have "isLocal (h (object obj)) \<or> connection obj \<noteq> None" by (simp add: a)
  then have "\<exists>obj'. updateChannel update h msn obj = Inr obj'"
    by (cases "connection obj") (auto simp: updateChannel_def)
  then show ?case by (auto simp: a r)
qed

lemma updateChannels_untouched:
  "length (snd (updateChannels update h msn cs)) = length cs
   \<and> (\<forall>i < length cs. \<not> included h (snd (cs ! i)) \<longrightarrow>
         snd (updateChannels update h msn cs) ! i = cs ! i)"
proof (induction cs)
  case Nil
  then show ?case by simp
next
  case (Cons a cs)
  obtain k obj where a: "a = (k, obj)" by (cases a)
  show ?case
  proof (cases "updateChannel update h msn obj")
    case (Inl e)
    then show ?thesis by (simp add: a)
  next
    case (Inr obj')
    obtain r rest' where r: "updateChannels update h msn cs = (r, rest')"
      by (cases "updateChannels update h msn cs")
    from Cons.IH r have len: "length rest' = length cs"
      and ih: "\<forall>i < length cs. \<not> included h (snd (cs ! i)) \<longrightarrow> rest' ! i = cs ! i"
      by simp_all
    have res: "snd (updateChannels update h msn (a # cs)) = (k, obj') # rest'"
      by (simp add: a Inr r)
    have "\<not> included h obj \<Longrightarrow> obj' = obj"
      using updateChannel_Inr [OF Inr] by simp
    with ih show ?thesis
      unfolding res by (auto simp: len a nth_Cons split: nat.splits)
  qed
qed

text \<open>
  C8. \<open>updateMinSequenceNumber\<close> hands the new minimum sequence number to the delta
  connection of a channel exactly when the channel is not local and the connection has its
  base mapping set, whatever the connection then does with it: for every \<open>update\<close> of the
  connection, a call that returns has replaced the connection of each such channel by
  \<open>update msn\<close> of it and has changed nothing else. The call returns whenever every
  channel that is not local has a delta connection. Whether it returns or throws, a
  channel that is local or whose base mapping is not set is left exactly as it was, also
  by an \<open>update\<close> that would have changed it.
\<close>

theorem updateMinSequenceNumber_forwarding:
  "(updateMinSequenceNumber update h s msn = Returns u s' \<longrightarrow>
      s' = s\<lparr>channels :=
               map (\<lambda>(k, obj).
                      (k, if \<not> isLocal (h (object obj))
                             \<and> (case connection obj of
                                   None \<Rightarrow> False
                                 | Some c \<Rightarrow> baseMappingIsSet c)
                          then obj\<lparr>connection := map_option (update msn) (connection obj)\<rparr>
                          else obj))
                   (channels s)\<rparr>)
   \<and> ((\<forall>(k, obj) \<in> set (channels s). isLocal (h (object obj)) \<or> connection obj \<noteq> None) \<longrightarrow>
        (\<exists>s'. updateMinSequenceNumber update h s msn = Returns () s'))
   \<and> length (channels (final (updateMinSequenceNumber update h s msn))) = length (channels s)
   \<and> (\<forall>i < length (channels s).
         isLocal (h (object (snd (channels s ! i))))
         \<or> (case connection (snd (channels s ! i)) of
               None \<Rightarrow> True
             | Some c \<Rightarrow> \<not> baseMappingIsSet c) \<longrightarrow>
         channels (final (updateMinSequenceNumber update h s msn)) ! i = channels s ! i)"
proof -
  have fin: "channels (final (updateMinSequenceNumber update h s msn))
      = snd (updateChannels update h msn (channels s))"
    by (auto simp: updateMinSequenceNumber_def final_def split: prod.splits option.splits)
  have inc: "included h obj
      = (\<not> isLocal (h (object obj))
         \<and> (case connection obj of None \<Rightarrow> False | Some c \<Rightarrow> baseMappingIsSet c))" for obj
    by (simp add: included_def)
  have exc: "(isLocal (h (object obj))
         \<or> (case connection obj of None \<Rightarrow> True | Some c \<Rightarrow> \<not> baseMappingIsSet c))
      = (\<not> included h obj)" for obj
    by (simp add: included_def split: option.splits)
  have 1: "updateMinSequenceNumber update h s msn = Returns u s' \<longrightarrow>
      s' = s\<lparr>channels :=
               map (\<lambda>(k, obj).
                      (k, if included h obj
                          then obj\<lparr>connection := map_option (update msn) (connection obj)\<rparr>
                          else obj))
                   (channels s)\<rparr>"
    by (auto simp: updateMinSequenceNumber_def split: prod.splits option.splits
        dest: updateChannels_None)
  have 2: "(\<forall>(k, obj) \<in> set (channels s). isLocal (h (object obj)) \<or> connection obj \<noteq> None) \<longrightarrow>
        (\<exists>s'. updateMinSequenceNumber update h s msn = Returns () s')"
  proof
    assume "\<forall>(k, obj) \<in> set (channels s). isLocal (h (object obj)) \<or> connection obj \<noteq> None"
    from updateChannels_total [OF this, of update msn]
    show "\<exists>s'. updateMinSequenceNumber update h s msn = Returns () s'"
      by (auto simp: updateMinSequenceNumber_def)
  qed
  from 1 2 updateChannels_untouched [of update h msn "channels s"] show ?thesis
    unfolding fin exc by (simp add: inc)
qed

theorem updateMinSequenceNumber_forwarding_witness:
  "updateMinSequenceNumber advance example_heap attached_runtime 9 =
     Returns () (attached_runtime\<lparr>channels :=
       [(''c1'', \<lparr>object = 11, storage = Some (ChannelStorageService None),
                  connection = Some (mapped_connection\<lparr>minimumSequenceNumber := 9\<rparr>)\<rparr>),
        (''c2'', \<lparr>object = 12, storage = None, connection = None\<rparr>)]\<rparr>)
   \<and> updateMinSequenceNumber advance attached_heap pending_runtime 9 = Returns () pending_runtime
   \<and> advance 9 example_connection \<noteq> example_connection"
proof -
  have a: "\<forall>(k, obj) \<in> set (channels attached_runtime).
      isLocal (example_heap (object obj)) \<or> connection obj \<noteq> None"
    by (simp add: attached_runtime_def example_heap_def)
  have b: "\<forall>(k, obj) \<in> set (channels pending_runtime).
      isLocal (attached_heap (object obj)) \<or> connection obj \<noteq> None"
    by (simp add: pending_runtime_def)
  note t = updateMinSequenceNumber_forwarding
  from t [of advance example_heap attached_runtime 9, THEN conjunct2, THEN conjunct1] a
  obtain s1 where r1: "updateMinSequenceNumber advance example_heap attached_runtime 9 = Returns () s1"
    by blast
  from t [of advance attached_heap pending_runtime 9, THEN conjunct2, THEN conjunct1] b
  obtain s2 where r2: "updateMinSequenceNumber advance attached_heap pending_runtime 9 = Returns () s2"
    by blast
  from t [of advance example_heap attached_runtime 9 "()" s1, THEN conjunct1] r1
  have "s1 = attached_runtime\<lparr>channels :=
       [(''c1'', \<lparr>object = 11, storage = Some (ChannelStorageService None),
                  connection = Some (mapped_connection\<lparr>minimumSequenceNumber := 9\<rparr>)\<rparr>),
        (''c2'', \<lparr>object = 12, storage = None, connection = None\<rparr>)]\<rparr>"
    by (simp add: attached_runtime_def example_heap_def mapped_connection_def
        baseMappingIsSet_def advance_def)
  moreover
  from t [of advance attached_heap pending_runtime 9 "()" s2, THEN conjunct1] r2
  have "s2 = pending_runtime"
    by (simp add: pending_runtime_def attached_heap_def example_heap_def example_connection_def
        newChannelDeltaConnection_def baseMappingIsSet_def)
  moreover have "advance 9 example_connection \<noteq> example_connection"
    by (simp add: advance_def example_connection_def newChannelDeltaConnection_def)
  ultimately show ?thesis using r1 r2 by simp
qed

section \<open>Attach messages\<close>

lemma map_of_delete_same: "map_of (AList.delete k al) k = None"
  by (simp add: delete_conv)

text \<open>
  C2. When \<open>processAttach\<close> returns for a local attach message, the id of the message
  is no longer in the pending attach set, the delta connection of the channel with that
  id is the result of \<open>setBaseMapping(0, message.minimumSequenceNumber)\<close> on the
  connection it had, and nothing else in the runtime has changed. The call returns
  whenever the runtime is open, the id is pending and the channel has a delta connection
  whose base mapping is not set yet.
\<close>

theorem processAttach_local:
  "(processAttach h s message True ctx = Returns ch s' \<longrightarrow>
      \<not> has (pendingAttach s') (attach_id (msg_contents message))
      \<and> (\<exists>st c c'. map_of (channels s) (attach_id (msg_contents message)) = Some st
            \<and> connection st = Some c
            \<and> setBaseMapping 0 (msg_minimumSequenceNumber message) c = Inr c'
            \<and> ch = object st
            \<and> s' = s\<lparr>pendingAttach :=
                       AList.delete (attach_id (msg_contents message)) (pendingAttach s),
                     channels :=
                       AList.update (attach_id (msg_contents message))
                         (st\<lparr>connection := Some c'\<rparr>) (channels s)\<rparr>))
   \<and> (\<not> closed s \<and> has (pendingAttach s) (attach_id (msg_contents message))
        \<and> map_of (channels s) (attach_id (msg_contents message)) = Some st
        \<and> connection st = Some c \<and> \<not> baseMappingIsSet c \<longrightarrow>
        (\<exists>s'. processAttach h s message True ctx = Returns (object st) s'))"
proof (intro conjI impI)
  assume r: "processAttach h s message True ctx = Returns ch s'"
  then show "\<not> has (pendingAttach s') (attach_id (msg_contents message))"
    by (auto simp: processAttach_def verifyNotClosed_def Let_def has_def map_of_delete_same
        split: if_splits option.splits sum.splits)
  from r show "\<exists>st c c'. map_of (channels s) (attach_id (msg_contents message)) = Some st
            \<and> connection st = Some c
            \<and> setBaseMapping 0 (msg_minimumSequenceNumber message) c = Inr c'
            \<and> ch = object st
            \<and> s' = s\<lparr>pendingAttach :=
                       AList.delete (attach_id (msg_contents message)) (pendingAttach s),
                     channels :=
                       AList.update (attach_id (msg_contents message))
                         (st\<lparr>connection := Some c'\<rparr>) (channels s)\<rparr>"
    by (auto simp: processAttach_def verifyNotClosed_def Let_def
        split: if_splits option.splits sum.splits)
next
  assume "\<not> closed s \<and> has (pendingAttach s) (attach_id (msg_contents message))
        \<and> map_of (channels s) (attach_id (msg_contents message)) = Some st
        \<and> connection st = Some c \<and> \<not> baseMappingIsSet c"
  then show "\<exists>s'. processAttach h s message True ctx = Returns (object st) s'"
    by (simp add: processAttach_def verifyNotClosed_def Let_def setBaseMapping_def)
qed

theorem processAttach_local_witness:
  "processAttach example_heap pending_runtime echo_message True None =
     Returns 11 (pending_runtime\<lparr>pendingAttach := [],
       channels := [(''c1'', \<lparr>object = 11, storage = Some (ChannelStorageService None),
          connection = Some (example_connection\<lparr>baseMapping := Some (0, 7),
                                                minimumSequenceNumber := 7\<rparr>)\<rparr>)]\<rparr>)"
proof -
  let ?st = "\<lparr>object = 11, storage = Some (ChannelStorageService None),
              connection = Some example_connection\<rparr>"
  have i: "attach_id (msg_contents echo_message) = ''c1''"
    by (simp add: echo_message_def example_message_def)
  have pre: "\<not> closed pending_runtime \<and> has (pendingAttach pending_runtime) ''c1''
        \<and> map_of (channels pending_runtime) ''c1'' = Some ?st
        \<and> connection ?st = Some example_connection \<and> \<not> baseMappingIsSet example_connection"
    by (simp add: pending_runtime_def has_def example_connection_def
        newChannelDeltaConnection_def baseMappingIsSet_def)
  have sb: "setBaseMapping 0 7 example_connection
      = Inr (example_connection\<lparr>baseMapping := Some (0, 7), minimumSequenceNumber := 7\<rparr>)"
    by (simp add: setBaseMapping_def example_connection_def
        newChannelDeltaConnection_def baseMappingIsSet_def)
  note t = processAttach_local [where h = example_heap and s = pending_runtime
      and message = echo_message and ctx = None and st = ?st and c = example_connection,
      THEN conjunct2]
  from t pre i obtain s' where
    r: "processAttach example_heap pending_runtime echo_message True None = Returns 11 s'"
    by auto
  from processAttach_local [where h = example_heap and s = pending_runtime
      and message = echo_message and ctx = None and ch = 11 and s' = s', THEN conjunct1] r i
  obtain st c c' where "map_of (channels pending_runtime) ''c1'' = Some st"
    "connection st = Some c" "setBaseMapping 0 (msg_minimumSequenceNumber echo_message) c = Inr c'"
    "s' = pending_runtime\<lparr>pendingAttach := AList.delete ''c1'' (pendingAttach pending_runtime),
           channels := AList.update ''c1'' (st\<lparr>connection := Some c'\<rparr>) (channels pending_runtime)\<rparr>"
    by auto
  with pre sb have "s' = pending_runtime\<lparr>pendingAttach := [],
       channels := [(''c1'', \<lparr>object = 11, storage = Some (ChannelStorageService None),
          connection = Some (example_connection\<lparr>baseMapping := Some (0, 7),
                                                minimumSequenceNumber := 7\<rparr>)\<rparr>)]\<rparr>"
    by (auto simp: echo_message_def pending_runtime_def)
  with r show ?thesis by simp
qed

section \<open>The closed flag\<close>

text \<open>
  C3, as stated, fails. \<open>stop\<close> sets the flag and then itself calls \<open>snapshotInternal\<close>,
  which returns the final tree; on the closed runtime that \<open>stop\<close> leaves,
  \<open>snapshotInternal\<close> still returns the tree, \<open>updateMinSequenceNumber\<close> still returns,
  having advanced the delta connection of channel \<open>c1\<close>, \<open>transform\<close> still returns the
  rewritten message, \<open>getBlobMetadata\<close> still answers, and \<open>close\<close> still calls
  \<open>closeFn\<close>.
\<close>

theorem closed_runtime_counterexample:
  "stop example_stringify example_heap attached_runtime = Returns [c1_tree] stopped_runtime
   \<and> closed stopped_runtime
   \<and> snapshotInternal example_stringify example_heap stopped_runtime
       = Returns [c1_tree] stopped_runtime
   \<and> updateMinSequenceNumber conn_updateMinSequenceNumber example_heap stopped_runtime 9 =
       Returns () (stopped_runtime\<lparr>channels :=
         [(''c1'', \<lparr>object = 11, storage = Some (ChannelStorageService None),
                    connection = Some (mapped_connection\<lparr>minimumSequenceNumber := 9\<rparr>)\<rparr>),
          (''c2'', \<lparr>object = 12, storage = None, connection = None\<rparr>)]\<rparr>)
   \<and> transform example_transform example_sequence 5 stopped_runtime operation_message
       = Returns transformed_message stopped_runtime
   \<and> getBlobMetadata [example_blob] stopped_runtime = Returns [example_blob] stopped_runtime
   \<and> close stopped_runtime = Returns () (stopped_runtime\<lparr>effects := [CloseRequested]\<rparr>)"
proof -
  have s: "snapshotInternal example_stringify example_heap stopped_runtime
      = Returns [c1_tree] stopped_runtime"
    by (simp add: snapshotInternal_def stopped_runtime_def attached_runtime_def example_heap_def
        snapshotChannel_def mapped_connection_def baseMappingIsSet_def c1_tree_def
        stringify_TypeA)
  have c: "closed stopped_runtime" by (simp add: stopped_runtime_def)
  have st: "stop example_stringify example_heap attached_runtime
      = snapshotInternal example_stringify example_heap stopped_runtime"
    by (simp add: stop_def verifyNotClosed_def stopped_runtime_def attached_runtime_def)
  have u: "updateMinSequenceNumber conn_updateMinSequenceNumber example_heap stopped_runtime 9 =
       Returns () (stopped_runtime\<lparr>channels :=
         [(''c1'', \<lparr>object = 11, storage = Some (ChannelStorageService None),
                    connection = Some (mapped_connection\<lparr>minimumSequenceNumber := 9\<rparr>)\<rparr>),
          (''c2'', \<lparr>object = 12, storage = None, connection = None\<rparr>)]\<rparr>)"
    by (simp add: updateMinSequenceNumber_def stopped_runtime_def attached_runtime_def
        updateChannel_def example_heap_def mapped_connection_def baseMappingIsSet_def
        conn_updateMinSequenceNumber_def)
  have t: "transform example_transform example_sequence 5 stopped_runtime operation_message
      = Returns transformed_message stopped_runtime"
    by (simp add: transform_def stopped_runtime_def attached_runtime_def operation_message_def
        transformed_message_def example_transform_def Let_def)
  have g: "getBlobMetadata [example_blob] stopped_runtime = Returns [example_blob] stopped_runtime"
    by (simp add: getBlobMetadata_def)
  have cl: "close stopped_runtime = Returns () (stopped_runtime\<lparr>effects := [CloseRequested]\<rparr>)"
    by (simp add: close_def stopped_runtime_def attached_runtime_def)
  from s c st u t g cl show ?thesis by simp
qed

text \<open>
  C3, amended. On a closed runtime every operation that begins with \<open>verifyNotClosed\<close>
  (\<open>getChannel\<close>, \<open>createChannel\<close>, \<open>attachChannel\<close>, \<open>ready\<close>, \<open>start\<close>,
  \<open>changeConnectionState\<close>, \<open>prepare\<close>, \<open>process\<close>, \<open>processAttach\<close>,
  \<open>prepareAttach\<close>, \<open>getQuorum\<close>, \<open>hasUnackedOps\<close>, \<open>snapshot\<close>, \<open>save\<close>,
  \<open>uploadBlob\<close>, \<open>getBlob\<close>, \<open>stop\<close>, \<open>registerTasks\<close>), and \<open>submitMessage\<close>
  through \<open>submit\<close>, throws the error \<open>Runtime is closed\<close> before it reaches any
  collaborator and leaves the runtime state as it was. \<open>snapshotInternal\<close> is exempt: it
  is what \<open>stop\<close> runs after setting the flag. Nothing is stated about
  \<open>updateMinSequenceNumber\<close>, \<open>transform\<close>, \<open>getBlobMetadata\<close> and \<open>close\<close>.
\<close>

theorem closed_runtime_throws:
  assumes "closed s"
  shows "getChannel s i = Throws closedError s
     \<and> createChannel chaincode s i ty = Throws closedError s
     \<and> attachChannel h s channel = Throws closedError s
     \<and> ready readyOf s = Throws closedError s
     \<and> start chaincodeRun s p = Throws closedError s
     \<and> changeConnectionState s v cid = Throws closedError s
     \<and> prepare connectionPrepare s envelopeMessage local = Throws closedError s
     \<and> process connectionProcess s envelopeMessage local context0 = Throws closedError s
     \<and> processAttach h s message local ctx = Throws closedError s
     \<and> prepareAttach chaincode s message local = Throws closedError s
     \<and> getQuorum quorum s = Throws closedError s
     \<and> hasUnackedOps h s = Throws closedError s
     \<and> snapshot s description = Throws closedError s
     \<and> save s tag = Throws closedError s
     \<and> uploadBlob gitHashFile getRawUrl createBlob s blob = Throws closedError s
     \<and> getBlob blobManagerGetBlob s sha = Throws closedError s
     \<and> stop stringify h s = Throws closedError s
     \<and> registerTasks browser quorum s ts ver = Throws closedError s
     \<and> submitMessage s t c = Throws closedError s"
  using assms
  by (simp add: verifyNotClosed_def getChannel_def createChannel_def attachChannel_def
      ready_def start_def changeConnectionState_def prepare_def process_def processAttach_def
      prepareAttach_def getQuorum_def hasUnackedOps_def snapshot_def save_def uploadBlob_def
      getBlob_def stop_def registerTasks_def submitMessage_def submit_def)

theorem closed_runtime_throws_witness:
  "closed stopped_runtime
   \<and> createChannel example_chaincode stopped_runtime ''c3'' ''TypeA'' = Throws closedError stopped_runtime
   \<and> changeConnectionState stopped_runtime Disconnected ''client-2'' = Throws closedError stopped_runtime
   \<and> getQuorum remaining_members stopped_runtime = Throws closedError stopped_runtime
   \<and> registerTasks True remaining_members stopped_runtime [''intel''] None
       = Throws closedError stopped_runtime
   \<and> submitMessage stopped_runtime Save (TagContent ''v1'') = Throws closedError stopped_runtime
   \<and> stop example_stringify example_heap stopped_runtime = Throws closedError stopped_runtime"
proof -
  have c: "closed stopped_runtime" by (simp add: stopped_runtime_def)
  from closed_runtime_throws [OF c, where chaincode = example_chaincode and i = "''c3''"
      and ty = "''TypeA''" and v = Disconnected and cid = "''client-2''"
      and quorum = remaining_members and browser = True and ts = "[''intel'']" and ver = None
      and t = Save and c = "TagContent ''v1''" and stringify = example_stringify
      and h = example_heap and channel = 11 and readyOf = "\<lambda>r. None"
      and chaincodeRun = "\<lambda>s p. Inr p" and p = "''platform''"
      and connectionPrepare = "\<lambda>c m l. ()" and envelopeMessage = operation_message
      and local = True and connectionProcess = "\<lambda>c m l x. Inr c" and ?context0.0 = "()"
      and message = echo_message and ctx = None and description = "''message''"
      and tag = "''v1''" and gitHashFile = id and getRawUrl = id and createBlob = Inr
      and blob = example_blob and blobManagerGetBlob = "\<lambda>x. ()" and sha = "''sha-1''"] c
  show ?thesis by simp
qed

section \<open>Channel ids\<close>

text \<open>
  C9. \<open>createChannel\<close> for an id that already has a channel returns normally and replaces
  the stored channel state: after creating \<open>c1\<close> with type \<open>TypeA\<close> and then with type
  \<open>TypeB\<close>, the channel map holds the second object under \<open>c1\<close>, while the deferred
  of \<open>c1\<close>, already resolved, still answers \<open>getChannel\<close> with the first one. A
  snapshot load for the same id fails its assertion instead and leaves the state as it was.
\<close>

theorem createChannel_existing_id:
  "createChannel example_chaincode empty_runtime ''c1'' ''TypeA'' = Returns 21 created_once
   \<and> createChannel example_chaincode created_once ''c1'' ''TypeB'' = Returns 22 created_twice
   \<and> map_of (channels created_twice) ''c1'' = Some \<lparr>object = 22, storage = None, connection = None\<rparr>
   \<and> getChannel created_twice ''c1'' = Returns (Some 21) created_twice
   \<and> loadSnapshotChannel example_chaincode example_storage created_once ''c1'' example_tree []
        ''branch'' 0 = Throws AssertionError created_once"
  by (simp add: createChannel_def verifyNotClosed_def example_chaincode_def empty_runtime_def
      created_once_def created_twice_def resolveDeferred_def resolve_def getChannel_def
      loadSnapshotChannel_def readAndParse_def example_tree_def example_storage_def
      getObjectServices_def newChannelDeltaConnection_def setBaseMapping_def baseMappingIsSet_def
      loadChannel_def has_def Let_def)

section \<open>The leadership candidate\<close>

lemma lowest_Min: "lowest xs = (if xs = [] then None else Some (Min (set xs)))"
proof (induction xs)
  case Nil
  then show ?case by simp
next
  case (Cons x xs)
  then show ?case by (cases "xs = []") (simp_all add: min.commute)
qed

lemma eligible_set: "set (map fst (filter snd ms)) = {c. (c, True) \<in> set ms}"
  by force

text \<open>
  C6. The candidate is a function of the membership alone: two member lists with the same
  members, in any order, give the same candidate, and a candidate is an eligible member
  that is least among the eligible members. On an open runtime whose leader elector
  exists, \<open>proposeLeadership\<close> returns, and it has called the elector's
  \<open>proposeLeadership\<close> exactly when the candidate is the runtime's own client id;
  otherwise the state is unchanged. \<open>initLeaderElection\<close>, which creates the elector
  for the runtime's client id and then proposes, behaves the same way.
\<close>

theorem proposeLeadership_candidate:
  "(set members = set members' \<longrightarrow> getLeaderCandidate members = getLeaderCandidate members')
   \<and> (getLeaderCandidate members = Some c \<longrightarrow>
        (c, True) \<in> set members \<and> (\<forall>m. (m, True) \<in> set members \<longrightarrow> c \<le> m))
   \<and> (\<not> closed s \<and> leaderElector s = Some elector \<longrightarrow>
        proposeLeadership members s =
          Returns () (if getLeaderCandidate members = Some (clientId s)
                      then s\<lparr>effects := effects s @ [LeadershipProposed elector]\<rparr>
                      else s))
   \<and> (\<not> closed s \<longrightarrow>
        initLeaderElection members s =
          Returns () (if getLeaderCandidate members = Some (clientId s)
                      then s\<lparr>leaderElector := Some (clientId s),
                             effects := effects s @ [LeadershipProposed (clientId s)]\<rparr>
                      else s\<lparr>leaderElector := Some (clientId s)\<rparr>))"
proof (intro conjI impI)
  assume eq: "set members = set members'"
  have "set (map fst (filter snd members)) = set (map fst (filter snd members'))"
    by (simp only: eligible_set eq)
  moreover have "map fst (filter snd members) = [] \<longleftrightarrow> map fst (filter snd members') = []"
    using calculation by (metis set_empty)
  ultimately show "getLeaderCandidate members = getLeaderCandidate members'"
    by (simp only: getLeaderCandidate_def lowest_Min)
next
  assume a: "getLeaderCandidate members = Some c"
  let ?xs = "map fst (filter snd members)"
  from a have ne: "?xs \<noteq> []" and c: "c = Min (set ?xs)"
    by (auto simp: getLeaderCandidate_def lowest_Min split: if_splits)
  have fin: "finite (set ?xs)" by (rule finite_set)
  have ne': "set ?xs \<noteq> {}" using ne by (simp only: set_empty not_False_eq_True)
  have "Min (set ?xs) \<in> set ?xs" by (rule Min_in [OF fin ne'])
  then have "c \<in> {c. (c, True) \<in> set members}" unfolding c by (simp only: eligible_set)
  then show "(c, True) \<in> set members" by simp
  show "\<forall>m. (m, True) \<in> set members \<longrightarrow> c \<le> m"
  proof (intro allI impI)
    fix m assume "(m, True) \<in> set members"
    then have "m \<in> {c. (c, True) \<in> set members}" by simp
    then have "m \<in> set ?xs" by (simp only: eligible_set)
    then show "c \<le> m" unfolding c by (rule Min_le [OF fin])
  qed
next
  assume "\<not> closed s \<and> leaderElector s = Some elector"
  then show "proposeLeadership members s =
          Returns () (if getLeaderCandidate members = Some (clientId s)
                      then s\<lparr>effects := effects s @ [LeadershipProposed elector]\<rparr>
                      else s)"
    by (simp add: proposeLeadership_def getQuorum_def verifyNotClosed_def)
next
  assume "\<not> closed s"
  then show "initLeaderElection members s =
          Returns () (if getLeaderCandidate members = Some (clientId s)
                      then s\<lparr>leaderElector := Some (clientId s),
                             effects := effects s @ [LeadershipProposed (clientId s)]\<rparr>
                      else s\<lparr>leaderElector := Some (clientId s)\<rparr>)"
    by (simp add: initLeaderElection_def proposeLeadership_def getQuorum_def verifyNotClosed_def)
qed

theorem proposeLeadership_candidate_witness:
  "getLeaderCandidate remaining_members = Some ''B''
   \<and> getLeaderCandidate (rev remaining_members) = Some ''B''
   \<and> proposeLeadership remaining_members empty_runtime =
       Returns () (empty_runtime\<lparr>effects := [LeadershipProposed ''B'']\<rparr>)
   \<and> proposeLeadership remaining_members (empty_runtime\<lparr>clientId := ''C'', leaderElector := Some ''C''\<rparr>) =
       Returns () (empty_runtime\<lparr>clientId := ''C'', leaderElector := Some ''C''\<rparr>)"
proof -
  have b: "getLeaderCandidate remaining_members = Some ''B''"
    by (simp add: getLeaderCandidate_def remaining_members_def)
  have p: "set (rev remaining_members) = set remaining_members" by simp
  have o: "\<not> closed empty_runtime \<and> leaderElector empty_runtime = Some ''B''"
    "\<not> closed (empty_runtime\<lparr>clientId := ''C'', leaderElector := Some ''C''\<rparr>)
      \<and> leaderElector (empty_runtime\<lparr>clientId := ''C'', leaderElector := Some ''C''\<rparr>) = Some ''C''"
    by (simp_all add: empty_runtime_def)
  have ids: "clientId empty_runtime = ''B''"
    "clientId (empty_runtime\<lparr>clientId := ''C'', leaderElector := Some ''C''\<rparr>) = ''C''"
    "effects empty_runtime = []"
    by (simp_all add: empty_runtime_def)
  note t = proposeLeadership_candidate
  from t [of "rev remaining_members" remaining_members] p b
  have r: "getLeaderCandidate (rev remaining_members) = Some ''B''" by simp
  from t [of remaining_members remaining_members _ empty_runtime "''B''"] o(1) b ids
  have x: "proposeLeadership remaining_members empty_runtime =
       Returns () (empty_runtime\<lparr>effects := [LeadershipProposed ''B'']\<rparr>)" by simp
  from t [of remaining_members remaining_members _
      "empty_runtime\<lparr>clientId := ''C'', leaderElector := Some ''C''\<rparr>" "''C''"] o(2) b ids
  have y: "proposeLeadership remaining_members (empty_runtime\<lparr>clientId := ''C'', leaderElector := Some ''C''\<rparr>) =
       Returns () (empty_runtime\<lparr>clientId := ''C'', leaderElector := Some ''C''\<rparr>)" by simp
  from b r x y show ?thesis by simp
qed

section \<open>Package paths and component attributes\<close>

lemma hexval_digit:
  assumes "k < (16::nat)"
  shows "hexval (''0123456789abcdef'' ! k) = Some k"
proof -
  from assms have "k = 0 \<or> k = 1 \<or> k = 2 \<or> k = 3 \<or> k = 4 \<or> k = 5 \<or> k = 6 \<or> k = 7
      \<or> k = 8 \<or> k = 9 \<or> k = 10 \<or> k = 11 \<or> k = 12 \<or> k = 13 \<or> k = 14 \<or> k = 15"
    by arith
  then show ?thesis
    by (elim disjE) (simp_all add: hexval_def)
qed

lemma scan_unicode:
  assumes "n < (256::nat)"
  shows "scan Escaped cur acc
           (CHR ''u'' # CHR ''0'' # CHR ''0'' # ''0123456789abcdef'' ! (n div 16)
              # ''0123456789abcdef'' ! (n mod 16) # xs)
         = scan InString (char_of n # cur) acc xs"
proof -
  from assms have d: "n div 16 < 16" and m: "n mod 16 < 16" by simp_all
  have z: "hexval (CHR ''0'') = Some 0" by (simp add: hexval_def)
  from assms show ?thesis
    by (simp add: z hexval_digit [OF d] hexval_digit [OF m])
qed

lemma scan_escape_char:
  "scan InString cur acc (escape_char c @ xs) = scan InString (c # cur) acc xs"
proof (cases "(of_char c :: nat) < 32")
  case True
  then have n: "(of_char c :: nat) < 256" by simp
  have e: "escape_char c = [CHR 0x5C, CHR 0x22] \<or> escape_char c = [CHR 0x5C, CHR 0x5C]
      \<or> (\<exists>d. escape_char c = [CHR 0x5C, d] \<and> d \<noteq> CHR ''u'' \<and> unescape d = Some c)
      \<or> escape_char c = [CHR 0x5C, CHR ''u'', CHR ''0'', CHR ''0'',
              ''0123456789abcdef'' ! ((of_char c :: nat) div 16),
              ''0123456789abcdef'' ! ((of_char c :: nat) mod 16)]"
    using True by (auto simp: escape_char_def unescape_def)
  then show ?thesis
  proof (elim disjE exE conjE)
    assume "escape_char c = [CHR 0x5C, CHR 0x22]"
    with True show ?thesis by (auto simp: escape_char_def split: if_splits)
  next
    assume "escape_char c = [CHR 0x5C, CHR 0x5C]"
    with True show ?thesis by (auto simp: escape_char_def split: if_splits)
  next
    fix d
    assume "escape_char c = [CHR 0x5C, d]" "d \<noteq> CHR ''u''" "unescape d = Some c"
    then show ?thesis by simp
  next
    assume u: "escape_char c = [CHR 0x5C, CHR ''u'', CHR ''0'', CHR ''0'',
              ''0123456789abcdef'' ! ((of_char c :: nat) div 16),
              ''0123456789abcdef'' ! ((of_char c :: nat) mod 16)]"
    from scan_unicode [OF n, of cur acc xs] show ?thesis
      unfolding u by simp
  qed
next
  case False
  then show ?thesis by (auto simp: escape_char_def unescape_def)
qed

lemma scan_string:
  "scan InString cur acc (concat (map escape_char s) @ CHR 0x22 # rest)
   = scan AfterItem [] ((rev cur @ s) # acc) rest"
proof (induction s arbitrary: cur)
  case Nil
  then show ?case by simp
next
  case (Cons c s)
  show ?case
    using Cons.IH [of "c # cur"] by (simp add: scan_escape_char)
qed

lemma scan_item:
  "scan InString [] acc (tl (JSON_stringify_string p) @ rest) = scan AfterItem [] (p # acc) rest"
  using scan_string [of "[]" acc p rest] by (simp add: JSON_stringify_string_def)

lemma scan_items:
  "scan InString [] acc (tl (join (map JSON_stringify_string (p0 # ps))) @ '']'')
   = Some (rev acc @ p0 # ps)"
proof (induction ps arbitrary: p0 acc)
  case Nil
  from scan_item [of acc p0 "'']''"] show ?case by (simp add: whitespace_def)
next
  case (Cons p1 ps)
  have j: "tl (join (map JSON_stringify_string (p0 # p1 # ps))) @ '']''
      = tl (JSON_stringify_string p0)
        @ (CHR '','' # CHR 0x22 # tl (join (map JSON_stringify_string (p1 # ps))) @ '']'')"
  proof -
    have "join (map JSON_stringify_string (p1 # ps))
        = CHR 0x22 # tl (join (map JSON_stringify_string (p1 # ps)))"
      by (cases ps) (simp_all add: JSON_stringify_string_def)
    then show ?thesis
      by (simp add: JSON_stringify_string_def)
  qed
  show ?case
    unfolding j scan_item
    using Cons.IH [of "p0 # acc" p1] by (simp add: whitespace_def)
qed

lemma read_stringify: "read_array (JSON_stringify_array ps) = Some ps"
proof (cases ps)
  case Nil
  then show ?thesis by (simp add: read_array_def JSON_stringify_array_def whitespace_def)
next
  case (Cons p0 ps')
  have "join (map JSON_stringify_string (p0 # ps'))
      = CHR 0x22 # tl (join (map JSON_stringify_string (p0 # ps')))"
    by (cases ps') (simp_all add: JSON_stringify_string_def)
  then have "JSON_stringify_array ps
      = CHR ''['' # CHR 0x22 # tl (join (map JSON_stringify_string (p0 # ps'))) @ '']''"
    by (simp add: JSON_stringify_array_def Cons)
  then show ?thesis
    using scan_items [of "[]" p0 ps'] by (simp add: read_array_def Cons whitespace_def)
qed

lemma read_array_spaces:
  "read_array spaced_canonical = Some [''Comp'', ''Sub'']"
  "read_array ''Foo'' = None"
  by (simp_all add: read_array_def spaced_canonical_def whitespace_def)

lemma read_array_escapes:
  "read_array [CHR ''['', CHR 0x22, CHR 0x5C, CHR ''u'', CHR ''0'', CHR ''0'', CHR ''4'', CHR ''1'',
               CHR 0x5C, CHR ''n'', CHR 0x22, CHR '']'']
   = Some [[CHR ''A'', CHR 0x0A]]"
  by code_simp

text \<open>
  C5. For a local component context whose package path has more than one element,
  \<open>realize\<close> fails with the malformed-path error, and no attach message is generated,
  when the registry has no entry for the first element or the entry offers no
  sub-registry. It succeeds when the entry offers a sub-registry in which the rest of the
  path resolves, and then the generated attach message declares the last path element as
  its type. Whenever it succeeds, the first entry does offer such a sub-registry.
\<close>

theorem realize_package_path:
  "(local_pkg ctx = p # q # ps
      \<and> (local_registry ctx p = None
          \<or> (\<exists>e. local_registry ctx p = Some e \<and> IComponentRegistry e = None)) \<longrightarrow>
      realize ctx = Inl MalformedPackagePathError
      \<and> generateAttachMessage ctx = Inl MalformedPackagePathError)
   \<and> (local_pkg ctx = p # q # ps \<and> local_registry ctx p = Some e
        \<and> IComponentRegistry e = Some sub \<and> resolvePackagePath sub (q # ps) = Inr f \<longrightarrow>
        realize ctx = Inr f
        \<and> (\<exists>m. generateAttachMessage ctx = Inr m \<and> component_type m = last (p # q # ps)))
   \<and> (local_pkg ctx = p # q # ps \<and> realize ctx = Inr f \<longrightarrow>
        (\<exists>e sub. local_registry ctx p = Some e \<and> IComponentRegistry e = Some sub
           \<and> resolvePackagePath sub (q # ps) = Inr f))"
  by (auto simp: realize_def generateAttachMessage_def split: option.splits)

lemma stringify_Comp_Sub: "JSON_stringify_array [''Comp'', ''Sub''] = comp_sub_canonical"
  by (simp add: JSON_stringify_array_def JSON_stringify_string_def escape_char_def
      comp_sub_canonical_def)

theorem realize_package_path_witness:
  "realize (comp_sub_context factory_only) = Inl MalformedPackagePathError
   \<and> realize (comp_sub_context nested_registry) = Inr (RegistryEntry True None)
   \<and> generateAttachMessage (comp_sub_context nested_registry) =
       Inr \<lparr>component_id = ''Test1'', component_type = ''Sub'',
            component_attributes =
              \<lparr>pkg = comp_sub_canonical, snapshotFormatVersion = Some ''0.1''\<rparr>\<rparr>"
proof -
  let ?sub = "\<lambda>q. if q = ''Sub'' then Some (RegistryEntry True None) else None"
  have a: "local_pkg (comp_sub_context factory_only) = ''Comp'' # ''Sub'' # []
      \<and> (local_registry (comp_sub_context factory_only) ''Comp'' = None
          \<or> (\<exists>e. local_registry (comp_sub_context factory_only) ''Comp'' = Some e
                \<and> IComponentRegistry e = None))"
    by (simp add: comp_sub_context_def factory_only_def)
  have b: "local_pkg (comp_sub_context nested_registry) = ''Comp'' # ''Sub'' # []
      \<and> local_registry (comp_sub_context nested_registry) ''Comp''
          = Some (RegistryEntry True (Some ?sub))
      \<and> IComponentRegistry (RegistryEntry True (Some ?sub)) = Some ?sub
      \<and> resolvePackagePath ?sub (''Sub'' # []) = Inr (RegistryEntry True None)"
    by (simp add: comp_sub_context_def nested_registry_def)
  from realize_package_path [of "comp_sub_context factory_only" "''Comp''" "''Sub''" "[]"] a
  have 1: "realize (comp_sub_context factory_only) = Inl MalformedPackagePathError" by blast
  from realize_package_path [of "comp_sub_context nested_registry" "''Comp''" "''Sub''" "[]"
      "RegistryEntry True (Some ?sub)" ?sub "RegistryEntry True None"] b
  have 2: "realize (comp_sub_context nested_registry) = Inr (RegistryEntry True None)"
    and 3: "\<exists>m. generateAttachMessage (comp_sub_context nested_registry) = Inr m
        \<and> component_type m = last [''Comp'', ''Sub'']"
    by blast+
  have 4: "generateAttachMessage (comp_sub_context nested_registry) =
       Inr \<lparr>component_id = ''Test1'', component_type = ''Sub'',
            component_attributes =
              \<lparr>pkg = comp_sub_canonical, snapshotFormatVersion = Some ''0.1''\<rparr>\<rparr>"
    using 2 by (simp add: generateAttachMessage_def comp_sub_context_def componentAttributes_def
        stringify_Comp_Sub currentSnapshotFormatVersion_def)
  from 1 2 4 show ?thesis by simp
qed

text \<open>
  C7. A remoted component context loaded from attributes without a
  \<open>snapshotFormatVersion\<close> takes \<open>pkg\<close> as a bare identifier: its snapshot emits
  \<open>pkg\<close> as the JSON text of the one-element array of that identifier, with
  \<open>snapshotFormatVersion\<close> \<open>0.1\<close>, whatever the host's \<open>JSON.parse\<close> is. The canonical
  form is stable: a context loaded from the canonical attributes of a path emits the same
  attributes, for every \<open>parse\<close> that reads the canonical text of the path back, and so for
  \<open>read_array\<close> and every path.
\<close>

theorem remoted_snapshot_normalizes:
  "(snapshotFormatVersion (remoted_attributes ctx) = None \<longrightarrow>
      remoted_snapshot parse ctx =
        Inr \<lparr>pkg = JSON_stringify_array [pkg (remoted_attributes ctx)],
             snapshotFormatVersion = Some ''0.1''\<rparr>)
   \<and> (parse (JSON_stringify_array ps) = Some ps
        \<and> remoted_attributes ctx = componentAttributes ps \<longrightarrow>
        remoted_snapshot parse ctx = Inr (componentAttributes ps))
   \<and> (remoted_attributes ctx = componentAttributes ps \<longrightarrow>
        remoted_snapshot read_array ctx = Inr (componentAttributes ps))"
  by (auto simp: remoted_snapshot_def readPackagePath_def componentAttributes_def
      currentSnapshotFormatVersion_def read_stringify)

lemma stringify_Foo: "JSON_stringify_array [''Foo''] = foo_canonical"
  by (simp add: JSON_stringify_array_def JSON_stringify_string_def escape_char_def
      foo_canonical_def)

theorem remoted_snapshot_normalizes_witness:
  "remoted_snapshot read_array foo_context
     = Inr \<lparr>pkg = foo_canonical, snapshotFormatVersion = Some ''0.1''\<rparr>
   \<and> read_array foo_canonical = Some [''Foo'']
   \<and> remoted_snapshot read_array (foo_context\<lparr>remoted_attributes :=
         \<lparr>pkg = foo_canonical, snapshotFormatVersion = Some ''0.1''\<rparr>\<rparr>)
       = Inr \<lparr>pkg = foo_canonical, snapshotFormatVersion = Some ''0.1''\<rparr>"
proof -
  have v: "snapshotFormatVersion (remoted_attributes foo_context) = None"
    and p: "pkg (remoted_attributes foo_context) = ''Foo''"
    by (simp_all add: foo_context_def)
  have c: "componentAttributes [''Foo'']
      = \<lparr>pkg = foo_canonical, snapshotFormatVersion = Some ''0.1''\<rparr>"
    by (simp add: componentAttributes_def stringify_Foo currentSnapshotFormatVersion_def)
  have r: "read_array foo_canonical = Some [''Foo'']"
    using read_stringify [of "[''Foo'']"] by (simp only: stringify_Foo)
  note t = remoted_snapshot_normalizes
  from t [of foo_context read_array] v p
  have 1: "remoted_snapshot read_array foo_context
      = Inr \<lparr>pkg = foo_canonical, snapshotFormatVersion = Some ''0.1''\<rparr>"
    by (simp add: stringify_Foo)
  from t [of
      "foo_context\<lparr>remoted_attributes := \<lparr>pkg = foo_canonical, snapshotFormatVersion = Some ''0.1''\<rparr>\<rparr>"
      read_array "[''Foo'']"] r c
  have 2: "remoted_snapshot read_array (foo_context\<lparr>remoted_attributes :=
         \<lparr>pkg = foo_canonical, snapshotFormatVersion = Some ''0.1''\<rparr>\<rparr>)
       = Inr \<lparr>pkg = foo_canonical, snapshotFormatVersion = Some ''0.1''\<rparr>"
    by (simp add: stringify_Foo)
  from 1 r 2 show ?thesis by simp
qed

section \<open>Channels that wait for their acknowledgement\<close>

lemma updateChannels_keys: "map fst (snd (updateChannels update h msn cs)) = map fst cs"
  by (induction cs) (auto split: sum.splits prod.splits)

lemma updateChannels_map_of:
  "map_of cs i = Some obj \<Longrightarrow> \<not> included h obj \<Longrightarrow>
   map_of (snd (updateChannels update h msn cs)) i = Some obj"
proof (induction cs)
  case Nil
  then show ?case by simp
next
  case (Cons a cs)
  obtain k obj0 where a: "a = (k, obj0)" by (cases a)
  show ?case
  proof (cases "updateChannel update h msn obj0")
    case (Inl e)
    with Cons.prems show ?thesis by (simp add: a)
  next
    case (Inr obj')
    obtain r rest' where r: "updateChannels update h msn cs = (r, rest')"
      by (cases "updateChannels update h msn cs")
    show ?thesis
    proof (cases "k = i")
      case True
      with Cons.prems have "obj0 = obj" by (simp add: a)
      with Cons.prems(2) updateChannel_Inr [OF Inr] have "obj' = obj" by simp
      with True show ?thesis by (simp add: a Inr r)
    next
      case False
      with Cons.prems have "map_of cs i = Some obj" by (simp add: a)
      from Cons.IH [OF this Cons.prems(2)] False show ?thesis by (simp add: a Inr r)
    qed
  qed
qed

lemma notify_keys: "map fst (map (\<lambda>(k, st). (k, notifyChannel v st)) xs) = map fst xs"
  by (induction xs) auto

lemma notify_map_of:
  "map_of (map (\<lambda>(k, st). (k, notifyChannel v st)) xs) i = map_option (notifyChannel v) (map_of xs i)"
  by (induction xs) auto

lemma awaiting_frame:
  "awaiting s i \<Longrightarrow> channels s' = channels s \<Longrightarrow> pendingAttach s' = pendingAttach s \<Longrightarrow>
   awaiting s' i"
  by (simp add: awaiting_def)

lemma awaiting_update_other:
  "awaiting s i \<Longrightarrow> j \<noteq> i \<Longrightarrow> channels s' = AList.update j v (channels s) \<Longrightarrow>
   pendingAttach s' = pendingAttach s \<Longrightarrow> awaiting s' i"
  by (simp add: awaiting_def distinct_update update_conv')

lemma awaiting_pending_other:
  "awaiting s i \<Longrightarrow> j \<noteq> i \<Longrightarrow> channels s' = channels s \<Longrightarrow>
   pendingAttach s' = AList.update j m (pendingAttach s)
     \<or> pendingAttach s' = AList.delete j (pendingAttach s) \<Longrightarrow>
   awaiting s' i"
  by (auto simp: awaiting_def has_def update_conv' delete_conv')

lemma awaiting_changeConnectionState:
  assumes "awaiting s i"
  shows "awaiting (final (changeConnectionState s v cid)) i"
proof (cases "closed s \<or> v = connectionState s")
  case True
  then have "final (changeConnectionState s v cid) = s"
    by (auto simp: changeConnectionState_def verifyNotClosed_def final_def)
  with assms show ?thesis by simp
next
  case False
  let ?s1 = "s\<lparr>connectionState := v, clientId := cid\<rparr>"
  have r: "resubmit ?s1 (pendingAttach s) =
     Returns () (?s1\<lparr>effects := effects ?s1
        @ map (\<lambda>(k, m). Submitted Attach (AttachContent m)) (pendingAttach s)\<rparr>)"
    using False by (intro resubmit_open) simp
  have ch: "channels (final (changeConnectionState s v cid))
      = map (\<lambda>(k, st). (k, notifyChannel v st)) (channels s)"
    and pe: "pendingAttach (final (changeConnectionState s v cid)) = pendingAttach s"
    using False r
    by (cases "v = Connected";
        simp add: changeConnectionState_def verifyNotClosed_def final_def Let_def)+
  from assms obtain obj c where o: "map_of (channels s) i = Some obj"
    and c: "connection obj = Some c" "\<not> baseMappingIsSet c"
    by (auto simp: awaiting_def split: option.splits)
  from c have "connection (notifyChannel v obj) = Some (setConnectionState v c)"
    "\<not> baseMappingIsSet (setConnectionState v c)"
    by (simp_all add: notifyChannel_def setConnectionState_def baseMappingIsSet_def)
  with assms o show ?thesis
    unfolding awaiting_def ch pe notify_keys notify_map_of by simp
qed

lemma awaiting_updateMinSequenceNumber:
  assumes "awaiting s i"
  shows "awaiting (final (updateMinSequenceNumber update h s msn)) i"
proof -
  have ch: "channels (final (updateMinSequenceNumber update h s msn))
      = snd (updateChannels update h msn (channels s))"
    and pe: "pendingAttach (final (updateMinSequenceNumber update h s msn)) = pendingAttach s"
    by (auto simp: updateMinSequenceNumber_def final_def split: prod.splits option.splits)
  from assms obtain obj c where o: "map_of (channels s) i = Some obj"
    and c: "connection obj = Some c" "\<not> baseMappingIsSet c"
    by (auto simp: awaiting_def split: option.splits)
  from c have "\<not> included h obj" by (simp add: included_def)
  from updateChannels_map_of [OF o this, of update msn] assms c show ?thesis
    unfolding awaiting_def ch pe updateChannels_keys by simp
qed

lemma awaiting_createChannel:
  assumes "awaiting s i" and "j \<noteq> i"
  shows "awaiting (final (createChannel chaincode s j ty)) i"
proof (cases "closed s \<or> chaincode ty = None")
  case True
  then have "final (createChannel chaincode s j ty) = s"
    by (auto simp: createChannel_def verifyNotClosed_def final_def)
  with assms show ?thesis by simp
next
  case False
  then obtain extension where e: "chaincode ty = Some extension" by auto
  show ?thesis
    by (rule awaiting_update_other [OF assms,
          of _ "\<lparr>object = create extension s j, storage = None, connection = None\<rparr>"])
       (use False e in \<open>simp_all add: createChannel_def verifyNotClosed_def final_def Let_def\<close>)
qed

lemma awaiting_attachChannel:
  assumes "awaiting s i" and "channel_id (h channel) \<noteq> i"
  shows "awaiting (final (attachChannel h s channel)) i"
proof (cases "closed s")
  case True
  then have "final (attachChannel h s channel) = s"
    by (simp add: attachChannel_def verifyNotClosed_def final_def)
  with assms show ?thesis by simp
next
  case False
  let ?j = "channel_id (h channel)"
  let ?m = "\<lparr>attach_id = ?j, attach_snapshot = ITree (channel_snapshot (h channel)),
             attach_type = channel_type (h channel)\<rparr>"
  let ?s2 = "s\<lparr>pendingAttach := AList.update ?j ?m (pendingAttach s),
               effects := effects s @ [Submitted Attach (AttachContent ?m)]\<rparr>"
  have a2: "awaiting ?s2 i"
    by (rule awaiting_pending_other [OF assms, of _ ?m]) simp_all
  show ?thesis
  proof (cases "map_of (channels s) ?j")
    case None
    with False have "final (attachChannel h s channel) = ?s2"
      by (simp add: attachChannel_def verifyNotClosed_def submit_def final_def Let_def)
    with a2 show ?thesis by simp
  next
    case (Some entry)
    show ?thesis
    proof (cases "object entry = channel")
      case neq: False
      with False Some have "final (attachChannel h s channel) = ?s2"
        by (simp add: attachChannel_def verifyNotClosed_def submit_def final_def Let_def)
      with a2 show ?thesis by simp
    next
      case True
      let ?v = "entry\<lparr>connection := Some (deltaConnection (getObjectServices ?s2 ?j None)),
                       storage := Some (objectStorage (getObjectServices ?s2 ?j None))\<rparr>"
      from False Some True
      have f: "final (attachChannel h s channel) = ?s2\<lparr>channels := AList.update ?j ?v (channels ?s2)\<rparr>"
        by (simp add: attachChannel_def verifyNotClosed_def submit_def final_def Let_def)
      show ?thesis
        unfolding f
        by (rule awaiting_update_other [OF a2 assms(2), of _ ?v]) simp_all
    qed
  qed
qed

lemma awaiting_processAttach:
  assumes "awaiting s i" and "\<not> concerns i (CallProcessAttach h message local ctx)"
  shows "awaiting (final (processAttach h s message local ctx)) i"
proof (cases "closed s")
  case True
  then have "final (processAttach h s message local ctx) = s"
    by (simp add: processAttach_def verifyNotClosed_def final_def)
  with assms show ?thesis by simp
next
  case False
  let ?j = "attach_id (msg_contents message)"
  show ?thesis
  proof (cases local)
    case True
    with assms(2) have ji: "?j \<noteq> i" by simp
    let ?s1 = "s\<lparr>pendingAttach := AList.delete ?j (pendingAttach s)\<rparr>"
    have a1: "awaiting ?s1 i"
      by (rule awaiting_pending_other [OF assms(1) ji]) simp_all
    have "final (processAttach h s message local ctx) = s
        \<or> final (processAttach h s message local ctx) = ?s1
        \<or> (\<exists>v. final (processAttach h s message local ctx)
              = ?s1\<lparr>channels := AList.update ?j v (channels ?s1)\<rparr>)"
      using False True
      by (auto simp: processAttach_def verifyNotClosed_def final_def Let_def
          split: option.splits sum.splits)
    then show ?thesis
    proof (elim disjE exE)
      assume "final (processAttach h s message local ctx) = s"
      with assms show ?thesis by simp
    next
      assume "final (processAttach h s message local ctx) = ?s1"
      with a1 show ?thesis by simp
    next
      fix v
      assume f: "final (processAttach h s message local ctx)
              = ?s1\<lparr>channels := AList.update ?j v (channels ?s1)\<rparr>"
      show ?thesis
        unfolding f by (rule awaiting_update_other [OF a1 ji, of _ v]) simp_all
    qed
  next
    case remote: False
    show ?thesis
    proof (cases ctx)
      case None
      with False remote have "final (processAttach h s message local ctx) = s"
        by (simp add: processAttach_def verifyNotClosed_def final_def)
      with assms show ?thesis by simp
    next
      case (Some channelState)
      let ?k = "channel_id (h (object channelState))"
      from assms(2) remote Some have ki: "?k \<noteq> i" by simp
      let ?s1 = "s\<lparr>channels := AList.update ?k channelState (channels s),
                   channelsDeferred :=
                     resolveDeferred ?k (object channelState) (channelsDeferred s)\<rparr>"
      from False remote Some have "final (processAttach h s message local ctx) = ?s1"
        by (simp add: processAttach_def verifyNotClosed_def final_def Let_def
            split: option.splits)
      moreover have "awaiting ?s1 i"
        by (rule awaiting_update_other [OF assms(1) ki, of _ channelState]) simp_all
      ultimately show ?thesis by simp
    qed
  qed
qed

lemma awaiting_loadSnapshotChannel:
  assumes "awaiting s i" and "j \<noteq> i"
  shows "awaiting (final (loadSnapshotChannel chaincode storageService s j tree messages branch msn)) i"
proof -
  let ?f = "final (loadSnapshotChannel chaincode storageService s j tree messages branch msn)"
  have "(channels ?f = channels s \<or> (\<exists>v. channels ?f = AList.update j v (channels s)))
      \<and> pendingAttach ?f = pendingAttach s"
    by (auto simp: loadSnapshotChannel_def loadChannel_def final_def Let_def
        split: option.splits sum.splits)
  then show ?thesis
    using assms awaiting_frame awaiting_update_other by blast
qed

lemma awaiting_process:
  assumes "awaiting s i" and "envelope_address (msg_contents message) \<noteq> i"
  shows "awaiting (final (process connectionProcess s message local ctx)) i"
proof -
  let ?f = "final (process connectionProcess s message local ctx)"
  have "(channels ?f = channels s
         \<or> (\<exists>v. channels ?f = AList.update (envelope_address (msg_contents message)) v (channels s)))
      \<and> pendingAttach ?f = pendingAttach s"
    by (auto simp: process_def verifyNotClosed_def final_def Let_def
        split: option.splits sum.splits)
  then show ?thesis
    using assms awaiting_frame awaiting_update_other by blast
qed

lemma awaiting_registerTasks:
  assumes "awaiting s i"
  shows "awaiting (final (registerTasks browser quorum s ts v)) i"
proof -
  have "channels (final (registerTasks browser quorum s ts v)) = channels s
      \<and> pendingAttach (final (registerTasks browser quorum s ts v)) = pendingAttach s"
    by (auto simp: registerTasks_def startLeaderElection_def initLeaderElection_def
        proposeLeadership_def getQuorum_def verifyNotClosed_def final_def
        split: option.splits)
  with assms awaiting_frame show ?thesis by blast
qed

lemma awaiting_uploadBlob:
  assumes "awaiting s i"
  shows "awaiting (final (uploadBlob gitHashFile getRawUrl createBlob s file)) i"
proof -
  have "channels (final (uploadBlob gitHashFile getRawUrl createBlob s file)) = channels s
      \<and> pendingAttach (final (uploadBlob gitHashFile getRawUrl createBlob s file)) = pendingAttach s"
    by (auto simp: uploadBlob_def submit_def verifyNotClosed_def final_def Let_def
        split: sum.splits)
  with assms awaiting_frame show ?thesis by blast
qed

lemma awaiting_perform:
  assumes "awaiting s i" and "\<not> concerns i op"
  shows "awaiting (perform op s) i"
proof (cases op)
  case (CallGetChannel j)
  have "channels (final (getChannel s j)) = channels s
      \<and> pendingAttach (final (getChannel s j)) = pendingAttach s"
    by (auto simp: getChannel_def verifyNotClosed_def final_def split: option.splits)
  with assms CallGetChannel awaiting_frame show ?thesis by simp
next
  case (CallCreateChannel chaincode j ty)
  with assms awaiting_createChannel show ?thesis by simp
next
  case (CallAttachChannel h channel)
  with assms awaiting_attachChannel show ?thesis by simp
next
  case (CallReady readyOf)
  have "final (ready readyOf s) = s"
    by (auto simp: ready_def verifyNotClosed_def final_def split: option.splits)
  with assms CallReady show ?thesis by simp
next
  case (CallStart chaincodeRun p)
  have "channels (final (start chaincodeRun s p)) = channels s
      \<and> pendingAttach (final (start chaincodeRun s p)) = pendingAttach s"
    by (auto simp: start_def verifyNotClosed_def final_def split: sum.splits)
  with assms CallStart awaiting_frame show ?thesis by simp
next
  case (CallChangeConnectionState v cid)
  with assms awaiting_changeConnectionState show ?thesis by simp
next
  case (CallPrepare message local)
  have "final (prepare (\<lambda>c m l. ()) s message local) = s"
    by (auto simp: prepare_def verifyNotClosed_def final_def Let_def split: option.splits)
  with assms CallPrepare show ?thesis by simp
next
  case (CallProcess connectionProcess message local ctx)
  with assms awaiting_process show ?thesis by simp
next
  case (CallProcessAttach h message local ctx)
  with assms awaiting_processAttach show ?thesis by simp
next
  case (CallPrepareAttach chaincode message local)
  have "final (prepareAttach chaincode s message local) = s"
    by (auto simp: prepareAttach_def loadChannel_def verifyNotClosed_def final_def Let_def
        split: option.splits sum.splits)
  with assms CallPrepareAttach show ?thesis by simp
next
  case (CallGetQuorum quorum)
  have "final (getQuorum quorum s) = s"
    by (auto simp: getQuorum_def verifyNotClosed_def final_def)
  with assms CallGetQuorum show ?thesis by simp
next
  case (CallHasUnackedOps h)
  have "final (hasUnackedOps h s) = s"
    by (auto simp: hasUnackedOps_def verifyNotClosed_def final_def)
  with assms CallHasUnackedOps show ?thesis by simp
next
  case (CallSnapshot message)
  have "channels (final (snapshot s message)) = channels s
      \<and> pendingAttach (final (snapshot s message)) = pendingAttach s"
    by (auto simp: snapshot_def verifyNotClosed_def final_def)
  with assms CallSnapshot awaiting_frame show ?thesis by simp
next
  case (CallSave tag)
  have "channels (final (save s tag)) = channels s
      \<and> pendingAttach (final (save s tag)) = pendingAttach s"
    by (auto simp: save_def submit_def verifyNotClosed_def final_def)
  with assms CallSave awaiting_frame show ?thesis by simp
next
  case (CallUploadBlob gitHashFile getRawUrl createBlob file0)
  with assms awaiting_uploadBlob show ?thesis by simp
next
  case (CallGetBlob sha)
  have "final (getBlob (\<lambda>x. ()) s sha) = s"
    by (auto simp: getBlob_def verifyNotClosed_def final_def)
  with assms CallGetBlob show ?thesis by simp
next
  case (CallTransform message)
  have "final (transform (\<lambda>r m n. m) (\<lambda>c n. n) 0 s message) = s"
    by (auto simp: transform_def final_def Let_def split: option.splits)
  with assms CallTransform show ?thesis by simp
next
  case CallGetBlobMetadata
  have "final (getBlobMetadata () s) = s"
    by (simp add: getBlobMetadata_def final_def)
  with assms CallGetBlobMetadata show ?thesis by simp
next
  case (CallStop stringify h)
  have "channels (final (stop stringify h s)) = channels s
      \<and> pendingAttach (final (stop stringify h s)) = pendingAttach s"
    by (auto simp: stop_def snapshotInternal_def verifyNotClosed_def final_def split: sum.splits)
  with assms CallStop awaiting_frame show ?thesis by simp
next
  case CallClose
  have "channels (final (close s)) = channels s
      \<and> pendingAttach (final (close s)) = pendingAttach s"
    by (simp add: close_def final_def)
  with assms CallClose awaiting_frame show ?thesis by simp
next
  case (CallUpdateMinSequenceNumber update h msn)
  with assms awaiting_updateMinSequenceNumber show ?thesis by simp
next
  case (CallSnapshotInternal stringify h)
  have "final (snapshotInternal stringify h s) = s"
    by (auto simp: snapshotInternal_def final_def split: sum.splits)
  with assms CallSnapshotInternal show ?thesis by simp
next
  case (CallSubmitMessage t c)
  have "channels (final (submitMessage s t c)) = channels s
      \<and> pendingAttach (final (submitMessage s t c)) = pendingAttach s"
    by (auto simp: submitMessage_def submit_def verifyNotClosed_def final_def)
  with assms CallSubmitMessage awaiting_frame show ?thesis by simp
next
  case (CallRegisterTasks browser quorum ts v)
  with assms awaiting_registerTasks show ?thesis by simp
next
  case (CallLoadSnapshotChannel chaincode storageService j tree messages branch msn)
  with assms awaiting_loadSnapshotChannel show ?thesis by simp
next
  case (CallProposeLeadership quorum)
  have "channels (final (proposeLeadership quorum s)) = channels s
      \<and> pendingAttach (final (proposeLeadership quorum s)) = pendingAttach s"
    by (auto simp: proposeLeadership_def getQuorum_def verifyNotClosed_def final_def
        split: option.splits)
  with assms CallProposeLeadership awaiting_frame show ?thesis by simp
qed

lemma awaiting_run:
  "awaiting s i \<Longrightarrow> \<forall>op \<in> set ops. \<not> concerns i op \<Longrightarrow> awaiting (run ops s) i"
  unfolding run_def
  by (induction ops arbitrary: s) (simp_all add: awaiting_perform)

lemma attachChannel_awaiting:
  assumes "distinct (map fst (channels s))" and "attachChannel h s ch = Returns sv s1"
  shows "awaiting s1 (channel_id (h ch))"
  using assms
  by (auto simp: attachChannel_def verifyNotClosed_def submit_def getObjectServices_def Let_def
      awaiting_def has_def distinct_update update_conv' newChannelDeltaConnection_def
      baseMappingIsSet_def split: option.splits if_splits)

lemma awaiting_excluded:
  assumes "awaiting s i" and "snapshotInternal stringify h s = Returns es s'"
  shows "i \<notin> path ` set es"
proof
  assume m: "i \<in> path ` set es"
  from assms(2) have e: "snapshotEntries stringify h (channels s) = Inr es"
    by (auto simp: snapshotInternal_def split: sum.splits)
  have "path ` set es \<subseteq> fst ` {x \<in> set (channels s). included h (snd x)}"
    unfolding snapshotEntries_Inr [OF e] by (auto simp: image_iff)
  with m obtain obj where mem: "(i, obj) \<in> set (channels s)" and inc: "included h obj"
    by auto
  from mem assms(1) have "map_of (channels s) i = Some obj" by (simp add: awaiting_def)
  with assms(1) inc show False
    by (auto simp: awaiting_def included_def split: option.splits)
qed

text \<open>
  C1. A snapshot that returns leaves the runtime as it was and holds, in the order of the
  channel map, one directory entry for each channel that is not local and whose delta
  connection has its base mapping set, and for no other channel. The entry is a tree
  stored under the id the channel has in the map; it holds the entries of the channel's
  own snapshot followed by one blob named \<open>.attributes\<close>, in \<open>utf-8\<close>, whose contents
  are \<open>JSON.stringify\<close> of the attributes made of the minimum sequence number of the
  channel's delta connection and the channel's type. The snapshot returns whenever every
  channel that is not local has a delta connection. A channel that \<open>attachChannel\<close> has
  put into the pending attach set stays there and is in no snapshot, whatever the runtime
  does afterwards and whatever the channel objects answer by then, until an operation
  processes a message addressed to its id or creates, attaches or loads a channel under it.
\<close>

theorem snapshotInternal_channels:
  "(snapshotInternal stringify h s = Returns es s' \<longrightarrow>
      s' = s
      \<and> es = map (\<lambda>(k, obj).
                    ITreeEntry Directory k ''Tree''
                      (ITree (channel_snapshot (h (object obj))
                              @ [ITreeEntry File ''.attributes'' ''Blob''
                                   (IBlob (stringify
                                             \<lparr>sequenceNumber =
                                                minimumSequenceNumber (the (connection obj)),
                                              attr_type = channel_type (h (object obj))\<rparr>)
                                          ''utf-8'')])))
                 (filter (\<lambda>(k, obj).
                            \<not> isLocal (h (object obj))
                            \<and> (case connection obj of
                                  None \<Rightarrow> False
                                | Some c \<Rightarrow> baseMappingIsSet c))
                         (channels s)))
   \<and> ((\<forall>(k, obj) \<in> set (channels s). isLocal (h (object obj)) \<or> connection obj \<noteq> None) \<longrightarrow>
        (\<exists>es. snapshotInternal stringify h s = Returns es s))
   \<and> (distinct (map fst (channels s)) \<and> attachChannel h s ch = Returns sv s1
        \<and> (\<forall>op \<in> set ops. \<not> concerns (channel_id (h ch)) op) \<longrightarrow>
        has (pendingAttach (run ops s1)) (channel_id (h ch))
        \<and> (\<forall>stringify' h' es' s2.
              snapshotInternal stringify' h' (run ops s1) = Returns es' s2 \<longrightarrow>
              channel_id (h ch) \<notin> path ` set es'))"
proof (intro conjI impI)
  assume "snapshotInternal stringify h s = Returns es s'"
  then show "s' = s"
    by (auto simp: snapshotInternal_def split: sum.splits)
next
  assume "snapshotInternal stringify h s = Returns es s'"
  then have "snapshotEntries stringify h (channels s) = Inr es"
    by (auto simp: snapshotInternal_def split: sum.splits)
  from snapshotEntries_Inr [OF this]
  show "es = map (\<lambda>(k, obj).
                    ITreeEntry Directory k ''Tree''
                      (ITree (channel_snapshot (h (object obj))
                              @ [ITreeEntry File ''.attributes'' ''Blob''
                                   (IBlob (stringify
                                             \<lparr>sequenceNumber =
                                                minimumSequenceNumber (the (connection obj)),
                                              attr_type = channel_type (h (object obj))\<rparr>)
                                          ''utf-8'')])))
                 (filter (\<lambda>(k, obj).
                            \<not> isLocal (h (object obj))
                            \<and> (case connection obj of
                                  None \<Rightarrow> False
                                | Some c \<Rightarrow> baseMappingIsSet c))
                         (channels s))"
    by (simp only: included_def)
next
  assume "\<forall>(k, obj) \<in> set (channels s). isLocal (h (object obj)) \<or> connection obj \<noteq> None"
  from snapshotEntries_total [OF this, where stringify = stringify]
  show "\<exists>es. snapshotInternal stringify h s = Returns es s"
    by (auto simp: snapshotInternal_def)
next
  assume a: "distinct (map fst (channels s)) \<and> attachChannel h s ch = Returns sv s1
        \<and> (\<forall>op \<in> set ops. \<not> concerns (channel_id (h ch)) op)"
  then have d: "distinct (map fst (channels s))" and r: "attachChannel h s ch = Returns sv s1"
    and n: "\<forall>op \<in> set ops. \<not> concerns (channel_id (h ch)) op"
    by simp_all
  have w: "awaiting (run ops s1) (channel_id (h ch))"
    by (rule awaiting_run [OF attachChannel_awaiting [OF d r] n])
  then show "has (pendingAttach (run ops s1)) (channel_id (h ch))" by (simp add: awaiting_def)
  from w show "\<forall>stringify' h' es' s2.
              snapshotInternal stringify' h' (run ops s1) = Returns es' s2 \<longrightarrow>
              channel_id (h ch) \<notin> path ` set es'"
    using awaiting_excluded by blast
qed

theorem snapshotInternal_channels_witness:
  "snapshotInternal example_stringify example_heap attached_runtime
     = Returns [c1_tree] attached_runtime
   \<and> distinct (map fst (channels attached_runtime))
   \<and> (\<exists>sv s1. attachChannel example_heap attached_runtime 12 = Returns sv s1
        \<and> run reconnect s1 = reconnected_runtime)
   \<and> has (pendingAttach reconnected_runtime) ''c2''
   \<and> snapshotInternal example_stringify attached_heap reconnected_runtime
       = Returns [c1_tree] reconnected_runtime
   \<and> ''c2'' \<notin> path ` set [c1_tree]"
proof -
  have d: "distinct (map fst (channels attached_runtime))"
    by (simp add: attached_runtime_def)
  have n: "\<forall>op \<in> set reconnect. \<not> concerns ''c2'' op"
    by (simp add: reconnect_def)
  have l: "\<forall>(k, obj) \<in> set (channels attached_runtime).
      isLocal (example_heap (object obj)) \<or> connection obj \<noteq> None"
    by (simp add: attached_runtime_def example_heap_def)
  have l': "\<forall>(k, obj) \<in> set (channels reconnected_runtime).
      isLocal (attached_heap (object obj)) \<or> connection obj \<noteq> None"
    by (simp add: reconnected_runtime_def attached_runtime_def)
  obtain sv s1 where a: "attachChannel example_heap attached_runtime 12 = Returns sv s1"
    by (simp add: attachChannel_def verifyNotClosed_def submit_def attached_runtime_def
        example_heap_def Let_def)
  have r: "run reconnect s1 = reconnected_runtime"
    using a
    by (auto simp: run_def reconnect_def final_def attachChannel_def verifyNotClosed_def submit_def
        attached_runtime_def example_heap_def Let_def changeConnectionState_def
        reconnected_runtime_def c2_message_def getObjectServices_def notifyChannel_def
        setConnectionState_def newChannelDeltaConnection_def mapped_connection_def)
  have i: "channel_id (example_heap 12) = ''c2''" by (simp add: example_heap_def)
  note t = snapshotInternal_channels
  from t [where stringify = example_stringify and h = example_heap and s = attached_runtime,
      THEN conjunct2, THEN conjunct1] l
  obtain es where e: "snapshotInternal example_stringify example_heap attached_runtime
      = Returns es attached_runtime"
    by blast
  from t [where stringify = example_stringify and h = example_heap and s = attached_runtime
      and es = es and s' = attached_runtime, THEN conjunct1] e
  have "es = [c1_tree]"
    by (simp add: attached_runtime_def example_heap_def mapped_connection_def
        baseMappingIsSet_def c1_tree_def stringify_TypeA)
  with e have s0: "snapshotInternal example_stringify example_heap attached_runtime
      = Returns [c1_tree] attached_runtime"
    by simp
  from t [where stringify = example_stringify and h = attached_heap and s = reconnected_runtime,
      THEN conjunct2, THEN conjunct1] l'
  obtain es' where e': "snapshotInternal example_stringify attached_heap reconnected_runtime
      = Returns es' reconnected_runtime"
    by blast
  from t [where stringify = example_stringify and h = attached_heap and s = reconnected_runtime
      and es = es' and s' = reconnected_runtime, THEN conjunct1] e'
  have "es' = [c1_tree]"
    by (simp add: reconnected_runtime_def attached_runtime_def attached_heap_def
        example_heap_def mapped_connection_def newChannelDeltaConnection_def
        baseMappingIsSet_def c1_tree_def stringify_TypeA)
  with e' have s: "snapshotInternal example_stringify attached_heap reconnected_runtime
      = Returns [c1_tree] reconnected_runtime"
    by simp
  from t [where h = example_heap and s = attached_runtime and ch = 12 and sv = sv
      and ?s1.0 = s1 and ops = reconnect, THEN conjunct2, THEN conjunct2] d a n i r
  have p: "has (pendingAttach reconnected_runtime) ''c2''"
    and x: "\<forall>stringify' h' es' s2.
         snapshotInternal stringify' h' reconnected_runtime = Returns es' s2 \<longrightarrow>
         ''c2'' \<notin> path ` set es'"
    by simp_all
  from x s have "''c2'' \<notin> path ` set [c1_tree]" by blast
  with s0 d a r p s show ?thesis by blast
qed

end
